theory Spec2Isabelle
  imports Complex_Main "HOL-Library.Multiset"
begin

section \<open>Emergency response backend: hospitals, ambulances, emergencies\<close>

text \<open>
  A shallow embedding of the matching, reservation and dispatch code of the
  backend: \<open>HospitalService\<close> and the \<open>Hospital\<close> schema, \<open>AmbulanceService\<close>, the
  \<open>Emergency\<close> schema methods and the status and cancel routes.

  Conventions of the model.
  \<^item> A JavaScript number is a value of \<open>jsnumber\<close>: a real number, \<open>Infinity\<close>,
    \<open>-Infinity\<close> or \<open>NaN\<close>. The sign of zero is not modelled.
  \<^item> The estimated time of arrival and the distance are computed as the
    language computes them, with every operation rounded to the nearest
    double (\<open>fl\<close>): there the rounding decides the result, before \<open>Math.ceil\<close> and
    under \<open>Math.sqrt\<close>. \<open>Math.sin\<close>, \<open>Math.cos\<close> and \<open>Math.atan2\<close>, whose results the
    language leaves to the implementation, are parameters of the model.
  \<^item> The scores are computed on the exact values; their rounding error, a few
    units in the last place, is not modelled.
  \<^item> Bed, room and equipment counts are numbers, as in the schema, and need
    not be whole.
  \<^item> \<open>new Date()\<close> is the parameter \<open>now\<close> of the operation that reads the clock.
  \<^item> A thrown \<open>Error\<close> is a value of type \<open>error\<close> on the left of a sum.
  \<^item> Logging and socket notifications have no effect on the modelled state.
\<close>

subsection \<open>Errors\<close>

datatype error =
    HospitalNotFound      \<comment> \<open>\<open>new Error('Hospital not found')\<close>\<close>
  | NoAvailableBeds       \<comment> \<open>\<open>new Error('No available beds')\<close>\<close>
  | AmbulanceNotFound     \<comment> \<open>\<open>new Error('Ambulance not found')\<close>\<close>
  | AmbulanceNotAvailable \<comment> \<open>\<open>new Error('Ambulance not available')\<close>\<close>
  | ValidationError       \<comment> \<open>a schema validator rejected the document on save\<close>
  | ParallelSaveError     \<comment> \<open>\<open>save()\<close> was called on a document that is being saved\<close>

subsection \<open>Emergency types\<close>

text \<open>
  The nine values of the \<open>enum\<close> of \<open>emergency.type\<close>, which the submit route also
  checks: \<open>cardiac\<close>, \<open>trauma\<close>, \<open>stroke\<close>, \<open>respiratory\<close>, \<open>neurological\<close>,
  \<open>poisoning\<close>, \<open>burns\<close>, \<open>childbirth\<close>, \<open>other\<close>.
\<close>

datatype emergencyType =
    Cardiac | Trauma | Stroke | Respiratory | Neurological | Poisoning | Burns | Childbirth | Other

subsection \<open>AmbulanceService: units\<close>

record crewMember =
  crew_name :: string
  crew_role :: string
  crew_certification :: string

record currentEmergency =
  ce_emergencyId :: string
  ce_location :: "real \<times> real"
  ce_severity :: string
  ce_emergencyType :: emergencyType
  ce_dispatchTime :: nat

text \<open>
  A member of \<open>this.ambulanceUnits\<close>. The three optional fields are the properties
  that \<open>dispatchAmbulance\<close> and \<open>reserveAmbulance\<close> add and \<open>releaseAmbulance\<close>
  deletes; \<open>None\<close> is an absent property.
\<close>

record ambulanceUnit =
  unit_id :: string
  unit_name :: string
  unit_status :: string
  unit_location :: "real \<times> real"
  unit_equipment :: "string list"
  unit_crew :: "crewMember list"
  unit_currentEmergency :: "currentEmergency option"
  unit_reservedFor :: "string option"
  unit_reservationTime :: "nat option"

text \<open>
  \<open>this.ambulanceUnits.find(unit => unit.id === ambulanceId)\<close> returns the first
  unit with that id, and the method then mutates that object in place. The model
  rewrites the first unit with the id and leaves the list unchanged when
  there is none.
\<close>

fun updateFirst :: "string \<Rightarrow> (ambulanceUnit \<Rightarrow> ambulanceUnit) \<Rightarrow> ambulanceUnit list \<Rightarrow> ambulanceUnit list" where
  "updateFirst a f [] = []"
| "updateFirst a f (u # us) = (if unit_id u = a then f u # us else u # updateFirst a f us)"

definition findUnit :: "ambulanceUnit list \<Rightarrow> string \<Rightarrow> ambulanceUnit option" where
  "findUnit units a = find (\<lambda>u. unit_id u = a) units"

definition released :: "ambulanceUnit \<Rightarrow> ambulanceUnit" where
  "released u = u\<lparr>unit_status := ''available'',
                  unit_currentEmergency := None,
                  unit_reservedFor := None,
                  unit_reservationTime := None\<rparr>"

definition releaseAmbulance :: "ambulanceUnit list \<Rightarrow> string \<Rightarrow> ambulanceUnit list" where
  "releaseAmbulance units ambulanceId = updateFirst ambulanceId released units"

definition reserveAmbulance ::
  "ambulanceUnit list \<Rightarrow> string \<Rightarrow> string \<Rightarrow> nat \<Rightarrow> error + ambulanceUnit list" where
  "reserveAmbulance units ambulanceId emergencyId now =
     (case findUnit units ambulanceId of
        None \<Rightarrow> Inl AmbulanceNotFound
      | Some ambulance \<Rightarrow>
          if unit_status ambulance \<noteq> ''available'' then Inl AmbulanceNotAvailable
          else Inr (updateFirst ambulanceId
                      (\<lambda>u. u\<lparr>unit_status := ''reserved'',
                             unit_reservedFor := Some emergencyId,
                             unit_reservationTime := Some now\<rparr>) units))"

text \<open>
  \<open>dispatchAmbulance\<close> receives the unit object itself, which is a member of
  \<open>this.ambulanceUnits\<close>; the model names it by its id. The timer that later moves
  the unit to \<open>en_route\<close> is a separate event, \<open>updateAmbulanceStatus\<close>.
\<close>

definition dispatchAmbulance ::
  "ambulanceUnit list \<Rightarrow> string \<Rightarrow> string \<Rightarrow> real \<times> real \<Rightarrow> string \<Rightarrow> emergencyType \<Rightarrow> nat
     \<Rightarrow> ambulanceUnit list" where
  "dispatchAmbulance units ambulanceId emergencyId location severity emergencyType now =
     updateFirst ambulanceId
       (\<lambda>u. u\<lparr>unit_status := ''dispatched'',
              unit_currentEmergency :=
                Some \<lparr>ce_emergencyId = emergencyId, ce_location = location,
                      ce_severity = severity, ce_emergencyType = emergencyType,
                      ce_dispatchTime = now\<rparr>\<rparr>) units"

definition updateAmbulanceStatus ::
  "ambulanceUnit list \<Rightarrow> string \<Rightarrow> string \<Rightarrow> (real \<times> real) option \<Rightarrow> ambulanceUnit list" where
  "updateAmbulanceStatus units ambulanceId newStatus location =
     updateFirst ambulanceId
       (\<lambda>u. let u' = u\<lparr>unit_status := newStatus\<rparr>
            in (case location of None \<Rightarrow> u' | Some l \<Rightarrow> u'\<lparr>unit_location := l\<rparr>)) units"

subsection \<open>JavaScript numbers\<close>

text \<open>
  A number of the language. The operations of this subsection are exact on the
  real numbers and follow the language on the other values: a division by
  zero gives \<open>Infinity\<close>, \<open>-Infinity\<close> or \<open>NaN\<close> where HOL gives \<open>0\<close>.
\<close>

datatype jsnumber = Finite real | PosInfinity | NegInfinity | NaN

definition js_div :: "real \<Rightarrow> real \<Rightarrow> jsnumber" where
  "js_div x y =
     (if y \<noteq> 0 then Finite (x / y)
      else if 0 < x then PosInfinity
      else if x < 0 then NegInfinity
      else NaN)"

fun js_neg :: "jsnumber \<Rightarrow> jsnumber" where
  "js_neg (Finite x) = Finite (- x)"
| "js_neg PosInfinity = NegInfinity"
| "js_neg NegInfinity = PosInfinity"
| "js_neg NaN = NaN"

fun js_add :: "jsnumber \<Rightarrow> jsnumber \<Rightarrow> jsnumber" where
  "js_add NaN _ = NaN"
| "js_add _ NaN = NaN"
| "js_add (Finite x) (Finite y) = Finite (x + y)"
| "js_add PosInfinity NegInfinity = NaN"
| "js_add NegInfinity PosInfinity = NaN"
| "js_add PosInfinity _ = PosInfinity"
| "js_add _ PosInfinity = PosInfinity"
| "js_add NegInfinity _ = NegInfinity"
| "js_add _ NegInfinity = NegInfinity"

definition js_sub :: "jsnumber \<Rightarrow> jsnumber \<Rightarrow> jsnumber" where
  "js_sub a b = js_add a (js_neg b)"

text \<open>Multiplication by a real factor, and of two numbers.\<close>

fun js_scale :: "jsnumber \<Rightarrow> real \<Rightarrow> jsnumber" where
  "js_scale (Finite x) c = Finite (x * c)"
| "js_scale PosInfinity c = (if 0 < c then PosInfinity else if c < 0 then NegInfinity else NaN)"
| "js_scale NegInfinity c = (if 0 < c then NegInfinity else if c < 0 then PosInfinity else NaN)"
| "js_scale NaN c = NaN"

fun js_mul :: "jsnumber \<Rightarrow> jsnumber \<Rightarrow> jsnumber" where
  "js_mul a (Finite y) = js_scale a y"
| "js_mul (Finite x) b = js_scale b x"
| "js_mul NaN _ = NaN"
| "js_mul _ NaN = NaN"
| "js_mul PosInfinity PosInfinity = PosInfinity"
| "js_mul NegInfinity NegInfinity = PosInfinity"
| "js_mul PosInfinity NegInfinity = NegInfinity"
| "js_mul NegInfinity PosInfinity = NegInfinity"

text \<open>Division of a number by a real divisor.\<close>

fun js_quot :: "jsnumber \<Rightarrow> real \<Rightarrow> jsnumber" where
  "js_quot (Finite x) y = js_div x y"
| "js_quot PosInfinity y = (if 0 \<le> y then PosInfinity else NegInfinity)"
| "js_quot NegInfinity y = (if 0 \<le> y then NegInfinity else PosInfinity)"
| "js_quot NaN y = NaN"

text \<open>
  \<open>Math.min(x, c)\<close> and \<open>Math.max(c, x)\<close> with a real \<open>c\<close> (both are symmetric in
  their arguments), \<open>Math.round\<close> and \<open>Math.ceil\<close>.
\<close>

fun Math_min :: "jsnumber \<Rightarrow> real \<Rightarrow> jsnumber" where
  "Math_min (Finite x) c = Finite (min x c)"
| "Math_min PosInfinity c = Finite c"
| "Math_min NegInfinity c = NegInfinity"
| "Math_min NaN c = NaN"

fun Math_max :: "real \<Rightarrow> jsnumber \<Rightarrow> jsnumber" where
  "Math_max c (Finite x) = Finite (max c x)"
| "Math_max c PosInfinity = PosInfinity"
| "Math_max c NegInfinity = Finite c"
| "Math_max c NaN = NaN"

fun Math_round :: "jsnumber \<Rightarrow> jsnumber" where
  "Math_round (Finite x) = Finite (of_int \<lfloor>x + 1 / 2\<rfloor>)"
| "Math_round v = v"


text \<open>\<open>v > 0\<close>, \<open>a >= b\<close> and \<open>a < b\<close>; a comparison with \<open>NaN\<close> is false.\<close>

fun js_positive :: "jsnumber \<Rightarrow> bool" where
  "js_positive (Finite x) = (0 < x)"
| "js_positive PosInfinity = True"
| "js_positive _ = False"

fun js_ge :: "jsnumber \<Rightarrow> jsnumber \<Rightarrow> bool" where
  "js_ge NaN _ = False"
| "js_ge _ NaN = False"
| "js_ge (Finite x) (Finite y) = (y \<le> x)"
| "js_ge PosInfinity _ = True"
| "js_ge _ NegInfinity = True"
| "js_ge _ _ = False"

definition js_less :: "jsnumber \<Rightarrow> jsnumber \<Rightarrow> bool" where
  "js_less a b \<longleftrightarrow> js_ge b a \<and> a \<noteq> b"

subsection \<open>Arithmetic in doubles\<close>

text \<open>
  \<open>fl x\<close> is the double nearest to the real number \<open>x\<close>: 53 significant bits, the
  exponent not below \<open>-1022\<close>, ties to the even significand, and an infinity
  when the rounded magnitude reaches \<open>2 ^ 1024\<close>. \<open>rne\<close> rounds to the nearest
  integer, ties to even. The four operations of the language on numbers are
  the exact operation followed by \<open>fl\<close>.
\<close>

definition rne :: "real \<Rightarrow> int" where
  "rne y =
     (let f = \<lfloor>y\<rfloor>; d = y - of_int f
      in if d < 1 / 2 then f
         else if 1 / 2 < d then f + 1
         else if even f then f else f + 1)"

definition fl :: "real \<Rightarrow> jsnumber" where
  "fl x =
     (if x = 0 then Finite 0
      else let e = max \<lfloor>log 2 \<bar>x\<bar>\<rfloor> (- 1022);
               q = 2 powr of_int (e - 52);
               r = of_int (rne (x / q)) * q
           in if 2 ^ 1024 \<le> \<bar>r\<bar> then (if 0 < x then PosInfinity else NegInfinity)
              else Finite r)"

definition d_add :: "jsnumber \<Rightarrow> jsnumber \<Rightarrow> jsnumber" where
  "d_add a b = (case (a, b) of (Finite x, Finite y) \<Rightarrow> fl (x + y) | _ \<Rightarrow> js_add a b)"

definition d_sub :: "jsnumber \<Rightarrow> jsnumber \<Rightarrow> jsnumber" where
  "d_sub a b = d_add a (js_neg b)"

definition d_mul :: "jsnumber \<Rightarrow> jsnumber \<Rightarrow> jsnumber" where
  "d_mul a b = (case (a, b) of (Finite x, Finite y) \<Rightarrow> fl (x * y) | _ \<Rightarrow> js_mul a b)"

text \<open>Division by a real divisor; every division of the modelled code has one.\<close>

definition d_div :: "jsnumber \<Rightarrow> real \<Rightarrow> jsnumber" where
  "d_div a y =
     (case a of
        Finite x \<Rightarrow> if y \<noteq> 0 then fl (x / y) else js_div x y
      | _ \<Rightarrow> js_quot a y)"

subsection \<open>The mathematical functions of the language\<close>

text \<open>
  \<open>Math.PI\<close> is the double nearest to \<open>\<pi>\<close>, and \<open>Math.sqrt\<close> returns the double
  nearest to the square root, \<open>NaN\<close> below zero. The language leaves the results
  of \<open>Math.sin\<close>, \<open>Math.cos\<close> and \<open>Math.atan2\<close> to the implementation, so the model
  takes them as a parameter \<open>L\<close>. \<open>conforming\<close> holds what the language does
  fix and the proofs use: the sine of zero is zero, the cosine of a number is
  a number of magnitude at most one, and \<open>Math.atan2(0, 1)\<close> is zero.
  \<open>exampleMath\<close> is one conforming library, which returns the double nearest to
  the exact value on real arguments.
\<close>

definition Math_PI :: real where
  "Math_PI = 884279719003555 / 2 ^ 48"

definition Math_sqrt :: "jsnumber \<Rightarrow> jsnumber" where
  "Math_sqrt v =
     (case v of
        Finite x \<Rightarrow> if x < 0 then NaN else fl (sqrt x)
      | PosInfinity \<Rightarrow> PosInfinity
      | NegInfinity \<Rightarrow> NaN
      | NaN \<Rightarrow> NaN)"

record mathlib =
  Math_sin :: "jsnumber \<Rightarrow> jsnumber"
  Math_cos :: "jsnumber \<Rightarrow> jsnumber"
  Math_atan2 :: "jsnumber \<Rightarrow> jsnumber \<Rightarrow> jsnumber"

definition conforming :: "mathlib \<Rightarrow> bool" where
  "conforming L \<longleftrightarrow>
     Math_sin L (Finite 0) = Finite 0
     \<and> (\<forall>x. \<exists>c. Math_cos L (Finite x) = Finite c \<and> \<bar>c\<bar> \<le> 1)
     \<and> Math_atan2 L (Finite 0) (Finite 1) = Finite 0"

definition atan2_real :: "real \<Rightarrow> real \<Rightarrow> real" where
  "atan2_real y x =
     (if 0 < x then arctan (y / x)
      else if x < 0 then (if 0 \<le> y then arctan (y / x) + pi else arctan (y / x) - pi)
      else if 0 < y then pi / 2
      else if y < 0 then - (pi / 2)
      else 0)"

definition exampleMath :: mathlib where
  "exampleMath =
     \<lparr>Math_sin = (\<lambda>v. case v of Finite x \<Rightarrow> fl (sin x) | _ \<Rightarrow> NaN),
      Math_cos = (\<lambda>v. case v of Finite x \<Rightarrow> fl (cos x) | _ \<Rightarrow> NaN),
      Math_atan2 = (\<lambda>y x. case (y, x) of
                             (Finite a, Finite b) \<Rightarrow> fl (atan2_real a b)
                           | _ \<Rightarrow> NaN)\<rparr>"

subsection \<open>AmbulanceService: estimated time of arrival\<close>



subsection \<open>Great-circle distance\<close>

text \<open>
  \<open>calculateDistance\<close> and \<open>toRadians\<close> are written twice in the source, with the
  same text, in \<open>HospitalService\<close> and in \<open>AmbulanceService\<close>; one definition models
  both. The coordinates are numbers. The result is \<open>NaN\<close> when the rounded
  haversine term \<open>a\<close> leaves the interval from 0 to 1, which makes an argument
  of \<open>Math.sqrt\<close> negative.
\<close>

definition toRadians :: "jsnumber \<Rightarrow> jsnumber" where
  "toRadians degrees = d_mul degrees (d_div (Finite Math_PI) 180)"

definition calculateDistance :: "mathlib \<Rightarrow> real \<Rightarrow> real \<Rightarrow> real \<Rightarrow> real \<Rightarrow> jsnumber" where
  "calculateDistance L lat1 lon1 lat2 lon2 =
     (let R = Finite 6371000;
          dLat = toRadians (d_sub (Finite lat2) (Finite lat1));
          dLon = toRadians (d_sub (Finite lon2) (Finite lon1));
          a = d_add (d_mul (Math_sin L (d_div dLat 2)) (Math_sin L (d_div dLat 2)))
                    (d_mul (d_mul (d_mul (Math_cos L (toRadians (Finite lat1)))
                                         (Math_cos L (toRadians (Finite lat2))))
                                  (Math_sin L (d_div dLon 2)))
                           (Math_sin L (d_div dLon 2)));
          c = d_mul (Finite 2) (Math_atan2 L (Math_sqrt a) (Math_sqrt (d_sub (Finite 1) a)))
      in d_mul R c)"

text \<open>
  The outcome of a call of \<open>calculateDistance\<close> as the caller sees it. The method
  body has no \<open>throw\<close> and calls nothing that throws, so the outcome is always the
  returned number.
\<close>

definition calculateDistance_outcome ::
  "mathlib \<Rightarrow> real \<Rightarrow> real \<Rightarrow> real \<Rightarrow> real \<Rightarrow> error + jsnumber" where
  "calculateDistance_outcome L lat1 lon1 lat2 lon2 = Inr (calculateDistance L lat1 lon1 lat2 lon2)"

definition validCoordinates :: "real \<Rightarrow> real \<Rightarrow> bool" where
  "validCoordinates lat lon \<longleftrightarrow> -90 \<le> lat \<and> lat \<le> 90 \<and> -180 \<le> lon \<and> lon \<le> 180"

subsection \<open>The Hospital document\<close>

text \<open>
  The fields of the schema that the modelled operations read or write, with
  the values the document holds after casting and setters (the name trimmed).
  The fields left out are taken to pass their validators. A coordinate pair is
  \<open>(longitude, latitude)\<close>, the order of the schema's array.
\<close>

record hospitalCapacity =
  totalBeds :: real
  availableBeds :: real
  icuBeds :: real
  availableIcuBeds :: real
  emergencyRooms :: real
  availableEmergencyRooms :: real
  lastUpdated :: nat

record hospitalServices =
  traumaLevel :: string
  strokeCenter :: bool
  heartAttackCenter :: bool
  burnCenter :: bool
  poisonControl :: bool

record hospitalEquipment =
  mriMachine :: bool
  ctScan :: bool
  defibrillators :: real
  ventilators :: real
  bloodBank :: bool

record hospitalRating =
  overall :: real

record hospital =
  hospital_name :: string
  coordinates :: "real \<times> real"
  capacity :: hospitalCapacity
  specialties :: "string list"
  emergencyServices :: hospitalServices
  equipment :: hospitalEquipment
  rating :: hospitalRating
  hospital_status :: string
  lastCapacityUpdate :: nat
  updatedAt :: nat

definition specialtyEnum :: "string list" where
  "specialtyEnum =
     [''Cardiology'', ''Neurology'', ''Orthopedics'', ''Pediatrics'', ''Trauma Center'',
      ''Burn Unit'', ''Stroke Center'', ''Cancer Center'', ''Maternity'', ''Mental Health'',
      ''Emergency Medicine'', ''Surgery'', ''Intensive Care'', ''Dialysis'', ''Radiology'',
      ''Laboratory'', ''Pharmacy'', ''Physical Therapy'', ''Rehabilitation'', ''Other'']"

definition traumaLevelEnum :: "string list" where
  "traumaLevelEnum = [''Level I'', ''Level II'', ''Level III'', ''Level IV'', ''None'']"

definition hospitalStatusEnum :: "string list" where
  "hospitalStatusEnum = [''Active'', ''Inactive'', ''Maintenance'', ''Emergency Only'']"

text \<open>
  The validators that the schema declares on the modelled fields: \<open>min: 0\<close> on the
  six counters, the coordinate validator, the \<open>enum\<close> lists, the bounds of
  \<open>rating.overall\<close> and the length of the name. \<open>save\<close> runs them and rejects the
  document when one fails.
\<close>

definition capacityValid :: "hospitalCapacity \<Rightarrow> bool" where
  "capacityValid c \<longleftrightarrow>
     0 \<le> totalBeds c \<and> 0 \<le> availableBeds c \<and> 0 \<le> icuBeds c \<and>
     0 \<le> availableIcuBeds c \<and> 0 \<le> emergencyRooms c \<and> 0 \<le> availableEmergencyRooms c"

definition validateHospital :: "hospital \<Rightarrow> bool" where
  "validateHospital h \<longleftrightarrow>
     hospital_name h \<noteq> [] \<and> length (hospital_name h) \<le> 200 \<and>
     (case coordinates h of (lon, lat) \<Rightarrow> -180 \<le> lon \<and> lon \<le> 180 \<and> -90 \<le> lat \<and> lat \<le> 90) \<and>
     capacityValid (capacity h) \<and>
     list_all (\<lambda>s. s \<in> set specialtyEnum) (specialties h) \<and>
     traumaLevel (emergencyServices h) \<in> set traumaLevelEnum \<and>
     1 \<le> overall (rating h) \<and> overall (rating h) \<le> 5 \<and>
     hospital_status h \<in> set hospitalStatusEnum"

text \<open>The \<open>pre('save')\<close> hook of the schema.\<close>

definition preSave :: "hospital \<Rightarrow> nat \<Rightarrow> hospital" where
  "preSave h now =
     (let c0 = capacity h;
          c1 = (if availableBeds c0 > totalBeds c0 then c0\<lparr>availableBeds := totalBeds c0\<rparr> else c0);
          c2 = (if availableIcuBeds c1 > icuBeds c1 then c1\<lparr>availableIcuBeds := icuBeds c1\<rparr> else c1);
          c3 = (if availableEmergencyRooms c2 > emergencyRooms c2
                then c2\<lparr>availableEmergencyRooms := emergencyRooms c2\<rparr> else c2)
      in h\<lparr>updatedAt := now, capacity := c3\<rparr>)"

definition save :: "hospital \<Rightarrow> nat \<Rightarrow> error + hospital" where
  "save h now = (if validateHospital h then Inr (preSave h now) else Inl ValidationError)"

text \<open>
  \<open>updateCapacity\<close>: \<open>Object.assign(this.capacity, capacityData)\<close> overwrites the
  fields that the argument has; an absent property is \<open>None\<close>.
\<close>

record capacityData =
  cd_totalBeds :: "real option"
  cd_availableBeds :: "real option"
  cd_icuBeds :: "real option"
  cd_availableIcuBeds :: "real option"
  cd_emergencyRooms :: "real option"
  cd_availableEmergencyRooms :: "real option"

definition assignCapacity :: "hospitalCapacity \<Rightarrow> capacityData \<Rightarrow> hospitalCapacity" where
  "assignCapacity c d =
     c\<lparr>totalBeds := (case cd_totalBeds d of None \<Rightarrow> totalBeds c | Some v \<Rightarrow> v),
       availableBeds := (case cd_availableBeds d of None \<Rightarrow> availableBeds c | Some v \<Rightarrow> v),
       icuBeds := (case cd_icuBeds d of None \<Rightarrow> icuBeds c | Some v \<Rightarrow> v),
       availableIcuBeds := (case cd_availableIcuBeds d of None \<Rightarrow> availableIcuBeds c | Some v \<Rightarrow> v),
       emergencyRooms := (case cd_emergencyRooms d of None \<Rightarrow> emergencyRooms c | Some v \<Rightarrow> v),
       availableEmergencyRooms :=
         (case cd_availableEmergencyRooms d of None \<Rightarrow> availableEmergencyRooms c | Some v \<Rightarrow> v)\<rparr>"

definition updateCapacity :: "hospital \<Rightarrow> capacityData \<Rightarrow> nat \<Rightarrow> error + hospital" where
  "updateCapacity h d now =
     save (h\<lparr>capacity := (assignCapacity (capacity h) d)\<lparr>lastUpdated := now\<rparr>,
             lastCapacityUpdate := now\<rparr>) now"

subsection \<open>HospitalService: reservation and capacity update\<close>

text \<open>The collection of hospital documents, by id; \<open>findById\<close> is the lookup.\<close>

type_synonym hospitalStore = "string \<rightharpoonup> hospital"

record reservation =
  res_success :: bool
  res_hospitalName :: string
  res_reservedBedType :: string
  res_reservationTime :: nat

definition reserveIn :: "hospital \<Rightarrow> emergencyType \<Rightarrow> hospital" where
  "reserveIn h emergencyType =
     (let c1 = (capacity h)\<lparr>availableBeds := availableBeds (capacity h) - 1\<rparr>;
          c2 = (if emergencyType = Cardiac \<or> emergencyType = Stroke \<or> emergencyType = Trauma
                then (if availableIcuBeds c1 > 0
                      then c1\<lparr>availableIcuBeds := availableIcuBeds c1 - 1\<rparr> else c1)
                else c1)
      in h\<lparr>capacity := c2\<rparr>)"

definition reserveBed ::
  "hospitalStore \<Rightarrow> string \<Rightarrow> string \<Rightarrow> emergencyType \<Rightarrow> nat
     \<Rightarrow> error + (reservation \<times> hospitalStore)" where
  "reserveBed store hospitalId emergencyId emergencyType now =
     (case store hospitalId of
        None \<Rightarrow> Inl HospitalNotFound
      | Some h \<Rightarrow>
          if availableBeds (capacity h) = 0 then Inl NoAvailableBeds
          else (case save (reserveIn h emergencyType) now of
                  Inl e \<Rightarrow> Inl e
                | Inr h' \<Rightarrow>
                    Inr (\<lparr>res_success = True, res_hospitalName = hospital_name h',
                          res_reservedBedType = ''general'', res_reservationTime = now\<rparr>,
                         store(hospitalId \<mapsto> h'))))"

definition updateHospitalCapacity ::
  "hospitalStore \<Rightarrow> string \<Rightarrow> capacityData \<Rightarrow> nat \<Rightarrow> error + (hospital \<times> hospitalStore)" where
  "updateHospitalCapacity store hospitalId d now =
     (case store hospitalId of
        None \<Rightarrow> Inl HospitalNotFound
      | Some h \<Rightarrow>
          (case updateCapacity h d now of
             Inl e \<Rightarrow> Inl e
           | Inr h' \<Rightarrow> Inr (h', store(hospitalId \<mapsto> h'))))"

definition capacityInvariant :: "hospital \<Rightarrow> bool" where
  "capacityInvariant h \<longleftrightarrow>
     0 \<le> availableBeds (capacity h) \<and> availableBeds (capacity h) \<le> totalBeds (capacity h) \<and>
     0 \<le> availableIcuBeds (capacity h) \<and> availableIcuBeds (capacity h) \<le> icuBeds (capacity h) \<and>
     0 \<le> availableEmergencyRooms (capacity h) \<and>
     availableEmergencyRooms (capacity h) \<le> emergencyRooms (capacity h)"

text \<open>
  The documents that the three operations write: what \<open>save\<close> returns, what
  \<open>reserveBed\<close> stores and what \<open>updateHospitalCapacity\<close> stores, from any document
  and any store.
\<close>

inductive written :: "hospital \<Rightarrow> bool" where
  by_save: "save h now = Inr h' \<Longrightarrow> written h'"
| by_reserveBed:
    "reserveBed store hospitalId emergencyId emergencyType now = Inr (r, store')
       \<Longrightarrow> store' hospitalId = Some h' \<Longrightarrow> written h'"
| by_updateCapacity:
    "updateHospitalCapacity store hospitalId d now = Inr (h', store') \<Longrightarrow> written h'"

subsection \<open>Hospital scores\<close>

text \<open>
  \<open>canHandleEmergency\<close> looks the type up in an object literal with one entry for
  each of the nine types.
\<close>

fun canHandleEmergency :: "hospital \<Rightarrow> emergencyType \<Rightarrow> bool" where
  "canHandleEmergency h Cardiac = heartAttackCenter (emergencyServices h)"
| "canHandleEmergency h Stroke = strokeCenter (emergencyServices h)"
| "canHandleEmergency h Trauma = (traumaLevel (emergencyServices h) \<noteq> ''None'')"
| "canHandleEmergency h Burns = burnCenter (emergencyServices h)"
| "canHandleEmergency h Poisoning = poisonControl (emergencyServices h)"
| "canHandleEmergency h Neurological = (''Neurology'' \<in> set (specialties h))"
| "canHandleEmergency h Respiratory = (0 < ventilators (equipment h))"
| "canHandleEmergency h Childbirth = (''Maternity'' \<in> set (specialties h))"
| "canHandleEmergency h Other = True"

definition calculateEmergencyScore :: "hospital \<Rightarrow> emergencyType \<Rightarrow> string \<Rightarrow> int" where
  "calculateEmergencyScore h emergencyType severity =
     (let s1 = (if 0 < availableBeds (capacity h) then 30 else 0);
          s2 = s1 + (if 0 < availableEmergencyRooms (capacity h) then 20 else 0);
          s3 = s2 + (if canHandleEmergency h emergencyType then 25 else 0);
          s4 = (if severity = ''critical''
                then s3
                     + (if traumaLevel (emergencyServices h) = ''Level I'' then 15
                        else if traumaLevel (emergencyServices h) = ''Level II'' then 10 else 0)
                     + (if 0 < availableIcuBeds (capacity h) then 10 else 0)
                else s3);
          s5 = s4 + (if ctScan (equipment h) then 5 else 0);
          s6 = s5 + (if mriMachine (equipment h) then 5 else 0);
          s7 = s6 + (if 0 < ventilators (equipment h) then 5 else 0)
      in min s7 100)"

definition calculateDistanceScore :: "jsnumber \<Rightarrow> real \<Rightarrow> jsnumber" where
  "calculateDistanceScore distance maxDistance =
     (if js_ge distance (Finite maxDistance) then Finite 0
      else Math_max 0 (js_sub (Finite 100) (js_scale (js_quot distance maxDistance) 100)))"

text \<open>The statement \<open>if (condition) score += points\<close> on a score that may not be finite.\<close>

definition addPoints :: "bool \<Rightarrow> real \<Rightarrow> jsnumber \<Rightarrow> jsnumber" where
  "addPoints condition points score = (if condition then js_add score (Finite points) else score)"

definition calculateCapacityScore :: "hospital \<Rightarrow> jsnumber" where
  "calculateCapacityScore h =
     (let bedUtilization = js_div (availableBeds (capacity h)) (totalBeds (capacity h));
          s1 = js_add (Finite 0) (js_scale bedUtilization 30);
          s2 = addPoints (0 < availableEmergencyRooms (capacity h)) 25 s1;
          s3 = addPoints (0 < availableIcuBeds (capacity h)) 20 s2;
          s4 = addPoints (ctScan (equipment h)) 5 s3;
          s5 = addPoints (mriMachine (equipment h)) 5 s4;
          s6 = addPoints (0 < ventilators (equipment h)) 5 s5;
          s7 = addPoints (0 < defibrillators (equipment h)) 5 s6;
          s8 = addPoints (bloodBank (equipment h)) 5 s7
      in Math_min s8 100)"

subsection \<open>HospitalService: finding and ranking hospitals\<close>

record scoredHospital =
  sh_hospital :: hospital
  sh_distance :: jsnumber
  sh_score :: jsnumber
  sh_emergencyScore :: int
  sh_distanceScore :: jsnumber
  sh_capacityScore :: jsnumber

text \<open>
  The distance that the callback of \<open>hospitals.map\<close> computes for a hospital, and
  the callback.
\<close>

definition hospitalDistance :: "mathlib \<Rightarrow> real \<Rightarrow> real \<Rightarrow> hospital \<Rightarrow> jsnumber" where
  "hospitalDistance L longitude latitude h =
     calculateDistance L latitude longitude (snd (coordinates h)) (fst (coordinates h))"

definition scoreHospital ::
  "mathlib \<Rightarrow> real \<Rightarrow> real \<Rightarrow> emergencyType \<Rightarrow> string \<Rightarrow> real \<Rightarrow> hospital \<Rightarrow> scoredHospital" where
  "scoreHospital L longitude latitude emergencyType severity maxDistance h =
     (let distance = hospitalDistance L longitude latitude h;
          emergencyScore = calculateEmergencyScore h emergencyType severity;
          distanceScore = calculateDistanceScore distance maxDistance;
          capacityScore = calculateCapacityScore h;
          finalScore = js_add (js_add (Finite (real_of_int emergencyScore * 0.4))
                                      (js_scale distanceScore 0.3))
                              (js_scale capacityScore 0.3)
      in \<lparr>sh_hospital = h, sh_distance = distance, sh_score = Math_round finalScore,
          sh_emergencyScore = emergencyScore, sh_distanceScore = distanceScore,
          sh_capacityScore = capacityScore\<rparr>)"

text \<open>
  \<open>scoredHospitals.sort((a, b) => b.score - a.score)\<close>. \<open>Array.prototype.sort\<close> is
  stable, and \<open>a\<close> is placed after \<open>b\<close> when the comparator is positive; a \<open>NaN\<close>
  from the comparator counts as zero. With scores that are all numbers the
  comparator is a consistent order and every stable sort gives the same
  result; it is computed here by insertion from the right. A score is a
  number whenever the distance is a number that is not negative.
\<close>

definition comparator :: "scoredHospital \<Rightarrow> scoredHospital \<Rightarrow> jsnumber" where
  "comparator a b = js_sub (sh_score b) (sh_score a)"

fun insertByScore :: "scoredHospital \<Rightarrow> scoredHospital list \<Rightarrow> scoredHospital list" where
  "insertByScore x [] = [x]"
| "insertByScore x (y # ys) =
     (if js_positive (comparator x y) then y # insertByScore x ys else x # y # ys)"

definition sortByScore :: "scoredHospital list \<Rightarrow> scoredHospital list" where
  "sortByScore xs = foldr insertByScore xs []"

text \<open>
  \<open>findNearbyHospitals\<close>. The argument \<open>nearby\<close> is the list of the documents within
  \<open>maxDistance\<close> of the point, in the order in which the geospatial stage
  \<open>$near\<close> of the query yields them; the rest of the query, the conditions on
  \<open>status\<close> and \<open>capacity.availableBeds\<close> and \<open>limit(20)\<close>, is part of the model.
  The caller passes 50000 for \<open>maxDistance\<close> when it has no other value.
\<close>

definition candidates :: "hospital list \<Rightarrow> hospital list" where
  "candidates nearby =
     take 20 (filter (\<lambda>h. hospital_status h = ''Active'' \<and> 0 < availableBeds (capacity h)) nearby)"

definition findNearbyHospitals ::
  "mathlib \<Rightarrow> hospital list \<Rightarrow> real \<Rightarrow> real \<Rightarrow> emergencyType \<Rightarrow> string \<Rightarrow> real
     \<Rightarrow> scoredHospital list" where
  "findNearbyHospitals L nearby longitude latitude emergencyType severity maxDistance =
     (let hospitals = candidates nearby
      in if length hospitals = 0 then []
         else sortByScore (map (scoreHospital L longitude latitude emergencyType severity maxDistance)
                               hospitals))"

subsection \<open>The ranking, the capacity score and the arrival time as the specification words them\<close>

text \<open>
  The order that the specification gives for the result of the search:
  descending score, then ascending distance, then descending overall rating.
  \<open>spec_ranked a b\<close> says that \<open>a\<close> may stand before \<open>b\<close>.
\<close>

definition spec_ranked :: "scoredHospital \<Rightarrow> scoredHospital \<Rightarrow> bool" where
  "spec_ranked a b \<longleftrightarrow>
     js_positive (js_sub (sh_score a) (sh_score b))
     \<or> (sh_score a = sh_score b
         \<and> (js_less (sh_distance a) (sh_distance b)
            \<or> (sh_distance a = sh_distance b
                \<and> overall (rating (sh_hospital a)) \<ge> overall (rating (sh_hospital b)))))"

text \<open>
  The capacity score of the specification: 30 times the share of available
  beds, 25 for an available emergency room, 20 for an available ICU bed, 5 for
  each of the five equipment items with at most 20 for the equipment, and at
  most 100 in total.
\<close>

definition equipmentCount :: "hospital \<Rightarrow> nat" where
  "equipmentCount h =
     (if ctScan (equipment h) then 1 else 0) + (if mriMachine (equipment h) then 1 else 0)
     + (if 0 < ventilators (equipment h) then 1 else 0)
     + (if 0 < defibrillators (equipment h) then 1 else 0)
     + (if bloodBank (equipment h) then 1 else 0)"

definition spec_capacityScore :: "hospital \<Rightarrow> real" where
  "spec_capacityScore h =
     min 100 (30 * (availableBeds (capacity h) / totalBeds (capacity h))
              + (if 0 < availableEmergencyRooms (capacity h) then 25 else 0)
              + (if 0 < availableIcuBeds (capacity h) then 20 else 0)
              + min 20 (5 * real (equipmentCount h)))"


subsection \<open>Auxiliary notions for the ranking proofs\<close>

text \<open>
  A score that is a number, and the key by which the library sort orders such
  scores from the highest to the lowest.
\<close>

definition finiteScore :: "scoredHospital \<Rightarrow> bool" where
  "finiteScore x \<longleftrightarrow> (\<exists>r. sh_score x = Finite r)"

definition scoreKey :: "scoredHospital \<Rightarrow> real" where
  "scoreKey x = (case sh_score x of Finite r \<Rightarrow> - r | _ \<Rightarrow> 0)"

subsection \<open>The Emergency document\<close>

text \<open>
  The nine values of the \<open>enum\<close> of \<open>response.status\<close>; the status route accepts no
  other value. \<open>statusName\<close> is the string of the source.
\<close>

datatype status =
    Submitted | Processing | AmbulanceDispatched | EnRoute | ArrivedAtScene
  | Transported | ArrivedAtHospital | Completed | Cancelled

fun statusName :: "status \<Rightarrow> string" where
  "statusName Submitted = ''submitted''"
| "statusName Processing = ''processing''"
| "statusName AmbulanceDispatched = ''ambulance_dispatched''"
| "statusName EnRoute = ''en_route''"
| "statusName ArrivedAtScene = ''arrived_at_scene''"
| "statusName Transported = ''transported''"
| "statusName ArrivedAtHospital = ''arrived_at_hospital''"
| "statusName Completed = ''completed''"
| "statusName Cancelled = ''cancelled''"

record timelineEvent =
  tl_timestamp :: nat
  tl_event :: string
  tl_details :: string
  tl_updatedBy :: string
  tl_location :: "(real \<times> real) option"

text \<open>
  The fields of the schema that the status methods and the two routes read or
  write: the status and the five milestone times of \<open>response\<close>, the position,
  status and update time of \<open>ambulance\<close>, and the timeline.
\<close>

record emergency =
  em_emergencyId :: string
  response_status :: status
  dispatchTime :: "nat option"
  arrivalTime :: "nat option"
  transportTime :: "nat option"
  hospitalArrivalTime :: "nat option"
  completionTime :: "nat option"
  ambulance_gpsLocation :: "(real \<times> real) option"
  ambulance_status :: string
  ambulance_lastUpdate :: nat
  timeline :: "timelineEvent list"
  emergency_updatedAt :: nat

definition ambulanceStatusEnum :: "string list" where
  "ambulanceStatusEnum =
     [''dispatched'', ''en_route_to_scene'', ''at_scene'', ''en_route_to_hospital'',
      ''at_hospital'', ''available'']"

text \<open>
  Saving an emergency runs the validators of the schema, of which the \<open>enum\<close> of
  \<open>ambulance.status\<close> is the one a modelled field can fail (the \<open>enum\<close> of
  \<open>response.status\<close> holds by the type), and then the \<open>pre('save')\<close> hook. The hook
  recomputes the priority only when severity or type were modified, which no
  modelled method does, so it only sets \<open>updatedAt\<close>.
\<close>

definition validateEmergency :: "emergency \<Rightarrow> bool" where
  "validateEmergency e \<longleftrightarrow> ambulance_status e \<in> set ambulanceStatusEnum"

definition saveEmergency :: "emergency \<Rightarrow> nat \<Rightarrow> error + emergency" where
  "saveEmergency e now =
     (if validateEmergency e then Inr (e\<lparr>emergency_updatedAt := now\<rparr>) else Inl ValidationError)"

text \<open>
  \<open>addTimelineEvent\<close> pushes an entry and saves. \<open>timelinePush\<close> is the push alone:
  \<open>updateStatus\<close> calls \<open>addTimelineEvent\<close> without using what it returns and then
  saves the document itself, with the milestone time set.
\<close>

definition timelinePush ::
  "emergency \<Rightarrow> string \<Rightarrow> string \<Rightarrow> string \<Rightarrow> (real \<times> real) option \<Rightarrow> nat \<Rightarrow> emergency" where
  "timelinePush e event details updatedBy location now =
     e\<lparr>timeline := timeline e @
          [\<lparr>tl_timestamp = now, tl_event = event, tl_details = details,
            tl_updatedBy = updatedBy, tl_location = location\<rparr>]\<rparr>"

definition addTimelineEvent ::
  "emergency \<Rightarrow> string \<Rightarrow> string \<Rightarrow> string \<Rightarrow> (real \<times> real) option \<Rightarrow> nat \<Rightarrow> error + emergency" where
  "addTimelineEvent e event details updatedBy location now =
     saveEmergency (timelinePush e event details updatedBy location now) now"

fun stampMilestone :: "status \<Rightarrow> nat \<Rightarrow> emergency \<Rightarrow> emergency" where
  "stampMilestone AmbulanceDispatched now e = e\<lparr>dispatchTime := Some now\<rparr>"
| "stampMilestone ArrivedAtScene now e = e\<lparr>arrivalTime := Some now\<rparr>"
| "stampMilestone Transported now e = e\<lparr>transportTime := Some now\<rparr>"
| "stampMilestone ArrivedAtHospital now e = e\<lparr>hospitalArrivalTime := Some now\<rparr>"
| "stampMilestone Completed now e = e\<lparr>completionTime := Some now\<rparr>"
| "stampMilestone _ now e = e"

text \<open>
  \<open>updateStatus\<close> assigns the status, calls \<open>addTimelineEvent\<close> without awaiting or
  returning its promise, sets the milestone time and calls \<open>save()\<close> itself. The
  two calls of \<open>save()\<close> are made in the same turn of the event loop. The first
  has marked the document as being saved, so the library (mongoose 8, the
  version of \<open>package.json\<close>) refuses the second with \<open>ParallelSaveError\<close>, and
  that is what the promise returned by \<open>updateStatus\<close> settles to: the first
  component of the result. The first save runs its validators and writes
  after the method has returned, with the milestone time set: the second
  component is the document it writes, \<open>None\<close> when the validators refuse it.
\<close>

definition updateStatus ::
  "emergency \<Rightarrow> status \<Rightarrow> string \<Rightarrow> string \<Rightarrow> nat \<Rightarrow> (error + emergency) \<times> emergency option" where
  "updateStatus e newStatus updatedBy details now =
     (let e1 = e\<lparr>response_status := newStatus\<rparr>;
          e2 = timelinePush e1 (''Status changed to '' @ statusName newStatus) details updatedBy None now;
          e3 = stampMilestone newStatus now e2
      in (Inl ParallelSaveError,
          case saveEmergency e3 now of Inl err \<Rightarrow> None | Inr stored \<Rightarrow> Some stored))"

definition updateAmbulanceLocation ::
  "emergency \<Rightarrow> real \<Rightarrow> real \<Rightarrow> string \<Rightarrow> nat \<Rightarrow> error + emergency" where
  "updateAmbulanceLocation e longitude latitude st now =
     saveEmergency (e\<lparr>ambulance_gpsLocation := Some (longitude, latitude),
                      ambulance_status := st,
                      ambulance_lastUpdate := now\<rparr>) now"

subsection \<open>The status route and the cancel route\<close>

text \<open>
  The state that the routes work on: the collection of emergencies, the
  collection of hospitals and the unit list of \<open>AmbulanceService\<close>. A route
  returns the status code of its response and the state it leaves, in which
  the write of a save that was still pending at the response is done. The
  calls of the notification service are taken to return normally. A route
  answers 500 when an awaited call rejects.
\<close>

type_synonym emergencyStore = "string \<rightharpoonup> emergency"

record system =
  sys_emergencies :: emergencyStore
  sys_hospitals :: hospitalStore
  sys_units :: "ambulanceUnit list"

datatype response = Status200 | Status400 | Status404 | Status500

text \<open>
  \<open>PATCH /status/:emergencyId\<close>. The request validators answer 400 when a
  location is given with a coordinate out of range; that the status is one of
  the nine values holds by the type. \<open>updatedBy\<close> and \<open>details\<close> default to
  \<open>system\<close> and the empty string. A location is \<open>(latitude, longitude)\<close>; the test
  \<open>location && location.latitude && location.longitude\<close> is false for an absent
  location and for a zero coordinate.
\<close>

definition patchStatus ::
  "system \<Rightarrow> string \<Rightarrow> status \<Rightarrow> string option \<Rightarrow> string option \<Rightarrow> (real \<times> real) option \<Rightarrow> nat
     \<Rightarrow> response \<times> system" where
  "patchStatus sys eid st updatedByOpt detailsOpt location now =
     (let updatedBy = (case updatedByOpt of None \<Rightarrow> ''system'' | Some u \<Rightarrow> u);
          details = (case detailsOpt of None \<Rightarrow> [] | Some d \<Rightarrow> d)
      in if (case location of
               None \<Rightarrow> False
             | Some (latitude, longitude) \<Rightarrow> \<not> validCoordinates latitude longitude)
         then (Status400, sys)
         else
           (case sys_emergencies sys eid of
              None \<Rightarrow> (Status404, sys)
            | Some e \<Rightarrow>
                (case (case location of
                         Some (latitude, longitude) \<Rightarrow>
                           if latitude \<noteq> 0 \<and> longitude \<noteq> 0
                           then updateAmbulanceLocation e longitude latitude (statusName st) now
                           else Inr e
                       | None \<Rightarrow> Inr e) of
                   Inl err \<Rightarrow> (Status500, sys)
                 | Inr e1 \<Rightarrow>
                     (let sys1 = sys\<lparr>sys_emergencies := (sys_emergencies sys)(eid \<mapsto> e1)\<rparr>
                      in case updateStatus e1 st updatedBy details now of
                           (Inl err, None) \<Rightarrow> (Status500, sys1)
                         | (Inl err, Some e2) \<Rightarrow>
                             (Status500,
                              sys\<lparr>sys_emergencies := (sys_emergencies sys)(eid \<mapsto> e2)\<rparr>)
                         | (Inr e2, _) \<Rightarrow>
                             (Status200,
                              sys\<lparr>sys_emergencies := (sys_emergencies sys)(eid \<mapsto> e2)\<rparr>)))))"

text \<open>
  \<open>PATCH /cancel/:emergencyId\<close>. \<open>reason\<close> and \<open>cancelledBy\<close> default to
  \<open>User cancelled\<close> and \<open>patient\<close>.
\<close>

definition cancelEmergency ::
  "system \<Rightarrow> string \<Rightarrow> string option \<Rightarrow> string option \<Rightarrow> nat \<Rightarrow> response \<times> system" where
  "cancelEmergency sys eid reasonOpt cancelledByOpt now =
     (let reason = (case reasonOpt of None \<Rightarrow> ''User cancelled'' | Some r \<Rightarrow> r);
          cancelledBy = (case cancelledByOpt of None \<Rightarrow> ''patient'' | Some c \<Rightarrow> c)
      in case sys_emergencies sys eid of
           None \<Rightarrow> (Status404, sys)
         | Some e \<Rightarrow>
             if response_status e \<in> {Completed, Cancelled} then (Status400, sys)
             else (case updateStatus e Cancelled cancelledBy reason now of
                     (Inl err, None) \<Rightarrow> (Status500, sys)
                   | (Inl err, Some e') \<Rightarrow>
                       (Status500, sys\<lparr>sys_emergencies := (sys_emergencies sys)(eid \<mapsto> e')\<rparr>)
                   | (Inr e', _) \<Rightarrow>
                       (Status200, sys\<lparr>sys_emergencies := (sys_emergencies sys)(eid \<mapsto> e')\<rparr>)))"

subsection \<open>The state machine as the specification words it\<close>

text \<open>
  The specification's linear chain and its rule for an accepted transition:
  the current status is not terminal, and the target is \<open>cancelled\<close> or the
  successor of the current status. The source has no counterpart of these
  definitions; they state the claim that is compared with \<open>updateStatus\<close>.
\<close>

fun spec_successor :: "status \<Rightarrow> status option" where
  "spec_successor Submitted = Some Processing"
| "spec_successor Processing = Some AmbulanceDispatched"
| "spec_successor AmbulanceDispatched = Some EnRoute"
| "spec_successor EnRoute = Some ArrivedAtScene"
| "spec_successor ArrivedAtScene = Some Transported"
| "spec_successor Transported = Some ArrivedAtHospital"
| "spec_successor ArrivedAtHospital = Some Completed"
| "spec_successor Completed = None"
| "spec_successor Cancelled = None"

definition spec_terminal :: "status \<Rightarrow> bool" where
  "spec_terminal s \<longleftrightarrow> s = Completed \<or> s = Cancelled"

definition spec_accepts :: "status \<Rightarrow> status \<Rightarrow> bool" where
  "spec_accepts current target \<longleftrightarrow>
     \<not> spec_terminal current \<and> (target = Cancelled \<or> spec_successor current = Some target)"

subsection \<open>Sample data of the repository\<close>

text \<open>
  The two units that the constructor of \<open>AmbulanceService\<close> creates, the same
  units after \<open>AMB001\<close> has been dispatched, and the first hospital of the seed
  script with the defaults of the schema.
\<close>

definition initialUnits :: "ambulanceUnit list" where
  "initialUnits =
     [\<lparr>unit_id = ''AMB001'', unit_name = ''Unit Alpha-1'', unit_status = ''available'',
       unit_location = (40.7580, -73.9855),
       unit_equipment = [''AED'', ''Oxygen'', ''Stretcher'', ''IV Kit''],
       unit_crew = [\<lparr>crew_name = ''John Smith'', crew_role = ''Paramedic'', crew_certification = ''EMT-P''\<rparr>,
                    \<lparr>crew_name = ''Sarah Johnson'', crew_role = ''EMT'', crew_certification = ''EMT-B''\<rparr>],
       unit_currentEmergency = None, unit_reservedFor = None, unit_reservationTime = None\<rparr>,
      \<lparr>unit_id = ''AMB002'', unit_name = ''Unit Beta-2'', unit_status = ''available'',
       unit_location = (40.7505, -73.9934),
       unit_equipment = [''AED'', ''Oxygen'', ''Stretcher'', ''IV Kit'', ''Cardiac Monitor''],
       unit_crew = [\<lparr>crew_name = ''Mike Wilson'', crew_role = ''Paramedic'', crew_certification = ''EMT-P''\<rparr>,
                    \<lparr>crew_name = ''Lisa Brown'', crew_role = ''Paramedic'', crew_certification = ''EMT-P''\<rparr>],
       unit_currentEmergency = None, unit_reservedFor = None, unit_reservationTime = None\<rparr>]"

definition dispatchedUnits :: "ambulanceUnit list" where
  "dispatchedUnits =
     dispatchAmbulance initialUnits ''AMB001'' ''EMG-1A2B3C4D'' (40.7484, -73.9857) ''critical'' Cardiac 1000"

definition metropolitanGeneral :: hospital where
  "metropolitanGeneral =
     \<lparr>hospital_name = ''Metropolitan General Hospital'',
      coordinates = (-73.9857, 40.7484),
      capacity = \<lparr>totalBeds = 500, availableBeds = 45, icuBeds = 50, availableIcuBeds = 8,
                  emergencyRooms = 12, availableEmergencyRooms = 3, lastUpdated = 0\<rparr>,
      specialties = [''Emergency Medicine'', ''Cardiology'', ''Neurology'', ''Trauma Center'',
                     ''Surgery'', ''Intensive Care''],
      emergencyServices = \<lparr>traumaLevel = ''Level I'', strokeCenter = True, heartAttackCenter = True,
                           burnCenter = False, poisonControl = True\<rparr>,
      equipment = \<lparr>mriMachine = True, ctScan = True, defibrillators = 25, ventilators = 40,
                   bloodBank = True\<rparr>,
      rating = \<lparr>overall = 4.5\<rparr>,
      hospital_status = ''Active'',
      lastCapacityUpdate = 0,
      updatedAt = 0\<rparr>"

text \<open>
  An emergency as the submit route has created it, with the defaults of the
  schema and the first timeline entry, and the state in which hospital \<open>H1\<close> is
  the seeded hospital and both units are available.
\<close>

definition sampleEmergency :: emergency where
  "sampleEmergency =
     \<lparr>em_emergencyId = ''EMG-1A2B3C4D'',
      response_status = Submitted,
      dispatchTime = None, arrivalTime = None, transportTime = None,
      hospitalArrivalTime = None, completionTime = None,
      ambulance_gpsLocation = None,
      ambulance_status = ''dispatched'',
      ambulance_lastUpdate = 0,
      timeline = [\<lparr>tl_timestamp = 0, tl_event = ''Emergency submitted'',
                   tl_details = ''Chest pain and shortness of breath'',
                   tl_updatedBy = ''patient'', tl_location = None\<rparr>],
      emergency_updatedAt = 0\<rparr>"

definition sampleSystem :: system where
  "sampleSystem =
     \<lparr>sys_emergencies = [''EMG-1A2B3C4D'' \<mapsto> sampleEmergency],
      sys_hospitals = [''H1'' \<mapsto> metropolitanGeneral],
      sys_units = initialUnits\<rparr>"

text \<open>
  The state after a bed has been reserved at \<open>H1\<close> for the sample emergency and
  unit \<open>AMB001\<close> has been dispatched to it, and the state in which the sample
  emergency is already completed.
\<close>

definition reservedSystem :: system where
  "reservedSystem =
     sampleSystem
       \<lparr>sys_hospitals :=
          [''H1'' \<mapsto> metropolitanGeneral
             \<lparr>capacity := (capacity metropolitanGeneral)\<lparr>availableBeds := 44, availableIcuBeds := 7\<rparr>,
              updatedAt := 1000\<rparr>],
        sys_units := dispatchedUnits\<rparr>"

definition completedSystem :: system where
  "completedSystem =
     sampleSystem\<lparr>sys_emergencies :=
       [''EMG-1A2B3C4D'' \<mapsto> sampleEmergency\<lparr>response_status := Completed\<rparr>]\<rparr>"

text \<open>
  A second hospital at the coordinates of the first, equal to it in everything
  but name and rating, and the first hospital with no beds at all.
\<close>

definition annexHospital :: hospital where
  "annexHospital =
     metropolitanGeneral\<lparr>hospital_name := ''Metropolitan General Annex'',
                         rating := \<lparr>overall = 3.5\<rparr>\<rparr>"

definition closedWard :: hospital where
  "closedWard =
     metropolitanGeneral\<lparr>capacity := (capacity metropolitanGeneral)\<lparr>totalBeds := 0, availableBeds := 0\<rparr>\<rparr>"




section \<open>Properties\<close>

subsection \<open>Helper lemmas on the unit list\<close>

lemma updateFirst_absent:
  "find (\<lambda>u. unit_id u = a) us = None \<Longrightarrow> updateFirst a f us = us"
  by (induction us) (auto split: if_splits)

lemma updateFirst_idem:
  "(\<And>u. unit_id (f u) = unit_id u) \<Longrightarrow> (\<And>u. f (f u) = f u)
     \<Longrightarrow> updateFirst a f (updateFirst a f us) = updateFirst a f us"
  by (induction us) auto

lemma find_updateFirst:
  "(\<And>u. unit_id (f u) = unit_id u)
     \<Longrightarrow> find (\<lambda>u. unit_id u = a) (updateFirst a f us)
         = map_option f (find (\<lambda>u. unit_id u = a) us)"
  by (induction us) auto

lemma find_updateFirst_other:
  "(\<And>u. unit_id (f u) = unit_id u) \<Longrightarrow> b \<noteq> a
     \<Longrightarrow> find (\<lambda>u. unit_id u = b) (updateFirst a f us) = find (\<lambda>u. unit_id u = b) us"
  by (induction us) auto

lemma released_id: "unit_id (released u) = unit_id u"
  by (simp add: released_def)

lemma released_idem: "released (released u) = released u"
  by (simp add: released_def)

subsection \<open>Helper lemmas on rounding to a double\<close>

lemma rne_error: "\<bar>of_int (rne y) - y\<bar> \<le> 1 / 2"
  unfolding rne_def Let_def by (auto simp: abs_le_iff)

lemma rne_of_int: "rne (of_int m) = m"
  by (simp add: rne_def)

lemma rne_abs_le:
  assumes "\<bar>y\<bar> \<le> of_int N"
  shows "\<bar>rne y\<bar> \<le> N"
proof (cases "y = of_int \<lfloor>y\<rfloor>")
  case True
  then have "rne y = \<lfloor>y\<rfloor>" by (metis rne_of_int)
  with assms show ?thesis by linarith
next
  case False
  then have c: "\<lceil>y\<rceil> = \<lfloor>y\<rfloor> + 1" by (simp add: ceiling_altdef)
  have "\<lfloor>y\<rfloor> \<le> rne y" "rne y \<le> \<lfloor>y\<rfloor> + 1"
    by (simp_all add: rne_def Let_def)
  moreover have "- N \<le> \<lfloor>y\<rfloor>" using assms by (simp add: le_floor_iff abs_le_iff)
  moreover have "\<lceil>y\<rceil> \<le> N" using assms by (simp add: ceiling_le_iff abs_le_iff)
  ultimately show ?thesis using c by linarith
qed

lemma log2_bounds:
  assumes "x \<noteq> 0"
  shows "2 powr of_int \<lfloor>log 2 \<bar>x\<bar>\<rfloor> \<le> \<bar>x\<bar>" "\<bar>x\<bar> < 2 powr of_int (\<lfloor>log 2 \<bar>x\<bar>\<rfloor> + 1)"
  using floor_log_eq_powr_iff [of "\<bar>x\<bar>" 2 "\<lfloor>log 2 \<bar>x\<bar>\<rfloor>"] assms by simp_all

lemma fl_normal:
  assumes "2 powr of_int k \<le> \<bar>x\<bar>" "\<bar>x\<bar> < 2 powr of_int (k + 1)" "- 1022 \<le> k" "k \<le> 1022"
  shows "fl x = Finite (of_int (rne (x / 2 powr of_int (k - 52))) * 2 powr of_int (k - 52))"
proof -
  have pos: "0 < \<bar>x\<bar>" using assms(1) by (smt (verit) powr_gt_zero)
  then have x0: "x \<noteq> 0" by simp
  have e: "\<lfloor>log 2 \<bar>x\<bar>\<rfloor> = k"
    using floor_log_eq_powr_iff [of "\<bar>x\<bar>" 2 k] pos assms(1,2) by simp
  let ?q = "2 powr of_int (k - 52) :: real"
  have q: "0 < ?q" by simp
  have p53: "(2::real) powr 53 = 2 ^ 53" by simp
  have "(2::real) powr 53 * ?q = 2 powr (53 + of_int (k - 52))"
    by (simp only: powr_add)
  also have "53 + real_of_int (k - 52) = of_int (k + 1)" by simp
  finally have h: "2 ^ 53 * ?q = 2 powr of_int (k + 1)"
    unfolding p53 .
  have "\<bar>x / ?q\<bar> = \<bar>x\<bar> / ?q" using q by simp
  also have "\<dots> < 2 powr of_int (k + 1) / ?q"
    using assms(2) q by (simp only: divide_strict_right_mono)
  also have "\<dots> = 2 ^ 53"
    using q by (simp only: h [symmetric]) simp
  finally have "\<bar>x / ?q\<bar> \<le> of_int (2 ^ 53)" by simp
  then have "\<bar>rne (x / ?q)\<bar> \<le> 2 ^ 53"
    by (rule rne_abs_le)
  then have "\<bar>real_of_int (rne (x / ?q))\<bar> \<le> 2 ^ 53"
    by (metis of_int_abs of_int_le_iff of_int_numeral of_int_power)
  then have "\<bar>of_int (rne (x / ?q)) * ?q\<bar> \<le> 2 ^ 53 * ?q"
    using q by (simp add: abs_mult mult_right_mono)
  also have "\<dots> = 2 powr of_int (k + 1)" by (rule h)
  also have "\<dots> \<le> 2 powr 1023"
    by (rule powr_mono) (use assms(4) in simp_all)
  also have "\<dots> < 2 ^ 1024" 
    by simp
  finally have "\<not> 2 ^ 1024 \<le> \<bar>of_int (rne (x / ?q)) * ?q\<bar>" by simp
  then show ?thesis
    using x0 assms(3) by (simp add: fl_def e Let_def max_def)
qed


lemma two_powr_neg_nat: "(2::real) powr (- real m) = 1 / 2 ^ m"
  by (metis powr_minus_divide powr_realpow zero_less_numeral)

lemma fl_normal_up:
  fixes n :: nat
  assumes "2 ^ n \<le> \<bar>x\<bar>" "\<bar>x\<bar> < 2 ^ (n + 1)" "n \<le> 52"
  shows "fl x = Finite (of_int (rne (x * 2 ^ (52 - n))) / 2 ^ (52 - n))"
proof -
  have a: "(2::real) powr of_int (int n) = 2 ^ n"
    by (simp add: powr_realpow)
  have b: "(2::real) powr of_int (int n + 1) = 2 ^ (n + 1)"
    using powr_realpow [of 2 "n + 1"] by (simp add: add.commute)
  have "real_of_int (int n - 52) = - real (52 - n)"
    using assms(3) by simp
  then have c: "(2::real) powr of_int (int n - 52) = 1 / 2 ^ (52 - n)"
    by (simp only: two_powr_neg_nat)
  show ?thesis
    using fl_normal [of "int n" x] assms unfolding a b c by simp
qed

lemma fl_normal_down:
  fixes n :: nat
  assumes "1 / 2 ^ n \<le> \<bar>x\<bar>" "\<bar>x\<bar> < 2 / 2 ^ n" "0 < n" "n \<le> 1022"
  shows "fl x = Finite (of_int (rne (x * 2 ^ (52 + n))) / 2 ^ (52 + n))"
proof -
  have "real_of_int (- int n) = - real n" by simp
  then have a: "(2::real) powr of_int (- int n) = 1 / 2 ^ n"
    by (simp only: two_powr_neg_nat)
  have b: "(2::real) powr of_int (- int n + 1) = 2 / 2 ^ n"
  proof -
    have "(2::real) powr of_int (- int n + 1) = 2 powr 1 * 2 powr of_int (- int n)"
      by (simp only: powr_add [symmetric]) simp
    then show ?thesis unfolding a by simp
  qed
  have "real_of_int (- int n - 52) = - real (52 + n)"
    by simp
  then have c: "(2::real) powr of_int (- int n - 52) = 1 / 2 ^ (52 + n)"
    by (simp only: two_powr_neg_nat)
  show ?thesis
    using fl_normal [of "- int n" x] assms unfolding a b c by simp
qed

lemma fl_quantum:
  assumes "x \<noteq> 0"
  defines "q \<equiv> 2 powr of_int (max \<lfloor>log 2 \<bar>x\<bar>\<rfloor> (- 1022) - 52)"
  shows "0 < q"
    and "\<bar>of_int (rne (x / q)) * q - x\<bar> \<le> q / 2"
    and "q / 2 \<le> \<bar>x\<bar> / 2 ^ 53 + 2 powr (- 1075)"
proof -
  show q: "0 < q" by (simp add: q_def)
  have "of_int (rne (x / q)) * q - x = (of_int (rne (x / q)) - x / q) * q"
    using q by (simp add: field_simps)
  then have "\<bar>of_int (rne (x / q)) * q - x\<bar> = \<bar>of_int (rne (x / q)) - x / q\<bar> * q"
    using q by (simp add: abs_mult)
  also have "\<dots> \<le> 1 / 2 * q"
    using q rne_error [of "x / q"] by (intro mult_right_mono) simp_all
  finally show "\<bar>of_int (rne (x / q)) * q - x\<bar> \<le> q / 2" by simp
  show "q / 2 \<le> \<bar>x\<bar> / 2 ^ 53 + 2 powr (- 1075)"
  proof (cases "- 1022 \<le> \<lfloor>log 2 \<bar>x\<bar>\<rfloor>")
    case True
    then have "max \<lfloor>log 2 \<bar>x\<bar>\<rfloor> (- 1022) = \<lfloor>log 2 \<bar>x\<bar>\<rfloor>"
      by (rule max_absorb1)
    then have "q = 2 powr (of_int \<lfloor>log 2 \<bar>x\<bar>\<rfloor> + (- 52))"
      unfolding q_def by simp
    also have "\<dots> = 2 powr of_int \<lfloor>log 2 \<bar>x\<bar>\<rfloor> * 2 powr (- 52)"
      by (rule powr_add)
    also have "\<dots> \<le> \<bar>x\<bar> * 2 powr (- 52)"
      using log2_bounds(1) [OF assms(1)] by (intro mult_right_mono) simp_all
    finally have "q / 2 \<le> \<bar>x\<bar> * (2 powr (- 52) / 2)" by simp
    also have "2 powr (- 52) / 2 = (1::real) / 2 ^ 53" by (simp add: powr_neg_numeral)
    finally have "q / 2 \<le> \<bar>x\<bar> / 2 ^ 53" by simp
    moreover have "(0::real) \<le> 2 powr (- 1075)" by simp
    ultimately show ?thesis by linarith
  next
    case False
    then have "max \<lfloor>log 2 \<bar>x\<bar>\<rfloor> (- 1022) = - 1022"
      by (intro max_absorb2) linarith
    then have "q = 2 powr (- 1074)" unfolding q_def by simp
    also have "\<dots> = 2 powr (1 + (- 1075))" by simp
    also have "\<dots> = 2 powr 1 * 2 powr (- 1075)" by (rule powr_add)
    finally have "q / 2 = 2 powr (- 1075)" by simp
    then show ?thesis by simp
  qed
qed

lemma tiny_le_one: "(2::real) powr (- 1075) \<le> 1"
proof -
  have "(2::real) powr (- 1075) \<le> 2 powr 0" by (rule powr_mono) simp_all
  then show ?thesis by simp
qed

lemma fl_error:
  assumes "\<bar>x\<bar> \<le> 2 ^ 1023"
  shows "\<exists>r. fl x = Finite r \<and> \<bar>r - x\<bar> \<le> \<bar>x\<bar> / 2 ^ 53 + 2 powr (- 1075)"
proof (cases "x = 0")
  case True
  then show ?thesis by (simp add: fl_def)
next
  case False
  define q where "q = (2::real) powr of_int (max \<lfloor>log 2 \<bar>x\<bar>\<rfloor> (- 1022) - 52)"
  define r where "r = of_int (rne (x / q)) * q"
  define B where "B = (2::real) ^ 1023"
  have err: "\<bar>r - x\<bar> \<le> \<bar>x\<bar> / 2 ^ 53 + 2 powr (- 1075)"
    using fl_quantum(2,3) [OF False] unfolding q_def r_def by linarith
  have B1: "4 \<le> B" unfolding B_def by simp
  have "\<bar>x\<bar> / 2 ^ 53 \<le> B / 2 ^ 53"
    using assms unfolding B_def by (intro divide_right_mono) simp_all
  also have "\<dots> \<le> B / 4" using B1 by simp
  finally have "\<bar>x\<bar> / 2 ^ 53 \<le> B / 4" .
  then have "\<bar>r\<bar> < 2 * B"
    using err assms tiny_le_one B1 unfolding B_def [symmetric] by linarith
  moreover have "2 * B = 2 ^ 1024" unfolding B_def by simp
  ultimately have "\<not> 2 ^ 1024 \<le> \<bar>r\<bar>" by simp
  then have "fl x = Finite r"
    using False by (simp add: fl_def Let_def q_def r_def)
  with err show ?thesis by blast
qed

lemma fl_int:
  assumes "\<bar>m\<bar> < 2 ^ 53"
  shows "fl (of_int m) = Finite (of_int m)"
proof (cases "m = 0")
  case True
  then show ?thesis by (simp add: fl_def)
next
  case False
  let ?x = "real_of_int m"
  have x0: "?x \<noteq> 0" using False by simp
  have x1: "1 \<le> \<bar>?x\<bar>" using False by (metis of_int_abs of_int_1_le_iff zero_less_abs_iff int_one_le_iff_zero_less)
  have x2: "\<bar>?x\<bar> < 2 ^ 53" using assms by (metis of_int_abs of_int_less_iff of_int_numeral of_int_power)
  define e where "e = \<lfloor>log 2 \<bar>?x\<bar>\<rfloor>"
  have "0 \<le> log 2 \<bar>?x\<bar>" using x1 by simp
  then have e0: "0 \<le> e" by (simp add: e_def)
  have "\<bar>?x\<bar> < 2 powr 53" using x2 by simp
  then have "log 2 \<bar>?x\<bar> < 53" using x1 by (simp add: log_less_iff)
  then have e53: "e \<le> 52" by (simp add: e_def floor_le_iff) 
  define n where "n = nat e"
  have en: "e = int n" using e0 by (simp add: n_def)
  have n52: "n \<le> 52" using e53 en by simp
  have lo: "2 ^ n \<le> \<bar>?x\<bar>"
    using log2_bounds(1) [OF x0] unfolding e_def [symmetric] en by (simp add: powr_realpow)
  have "\<bar>?x\<bar> < 2 powr of_int (int n + 1)"
    using log2_bounds(2) [OF x0] unfolding e_def [symmetric] en .
  also have "real_of_int (int n + 1) = real (n + 1)" by simp
  finally have hi: "\<bar>?x\<bar> < 2 ^ (n + 1)" by (simp only: powr_realpow zero_less_numeral)
  have "?x * 2 ^ (52 - n) = of_int (m * 2 ^ (52 - n))" by simp
  then have "rne (?x * 2 ^ (52 - n)) = m * 2 ^ (52 - n)"
    by (simp only: rne_of_int)
  then show ?thesis
    using fl_normal_up [OF lo hi n52] by simp
qed

lemma fl_abs_le_one:
  assumes "\<bar>x\<bar> \<le> 1"
  shows "\<exists>c. fl x = Finite c \<and> \<bar>c\<bar> \<le> 1"
proof (cases "x = 0")
  case True
  then show ?thesis by (simp add: fl_def)
next
  case False
  define e where "e = max \<lfloor>log 2 \<bar>x\<bar>\<rfloor> (- 1022)"
  define q where "q = (2::real) powr of_int (e - 52)"
  define r where "r = of_int (rne (x / q)) * q"
  have "log 2 \<bar>x\<bar> \<le> 0" using assms False by simp
  then have "\<lfloor>log 2 \<bar>x\<bar>\<rfloor> \<le> 0" by (simp add: floor_le_iff)
  then have e0: "e \<le> 0" by (simp add: e_def)
  define k where "k = nat (52 - e)"
  have "real_of_int (e - 52) = - real k" using e0 by (simp add: k_def)
  then have q': "q = 1 / 2 ^ k" unfolding q_def by (simp only: two_powr_neg_nat)
  have q: "0 < q" by (simp add: q_def)
  have "\<bar>x / q\<bar> = \<bar>x\<bar> * 2 ^ k" by (simp add: q' abs_mult)
  also have "\<dots> \<le> 1 * 2 ^ k" using assms by (intro mult_right_mono) simp_all
  finally have "\<bar>x / q\<bar> \<le> of_int (2 ^ k)" by simp
  then have "\<bar>rne (x / q)\<bar> \<le> 2 ^ k" by (rule rne_abs_le)
  then have "\<bar>real_of_int (rne (x / q))\<bar> \<le> 2 ^ k"
    by (metis of_int_abs of_int_le_iff of_int_numeral of_int_power)
  then have "\<bar>r\<bar> \<le> 2 ^ k * q"
    using q unfolding r_def by (simp add: abs_mult mult_right_mono)
  then have r1: "\<bar>r\<bar> \<le> 1" by (simp add: q')
  have "(1::real) < 2 ^ 1024" by simp
  with r1 have "\<not> 2 ^ 1024 \<le> \<bar>r\<bar>" by linarith
  then have "fl x = Finite r"
    using False by (simp add: fl_def Let_def e_def q_def r_def)
  with r1 show ?thesis by blast
qed





lemma fl_0: "fl 0 = Finite 0"
  by (simp add: fl_def)

lemma fl_1: "fl 1 = Finite 1"
  using fl_int [of 1] by simp

lemma d_zero:
  "d_mul (Finite 0) (Finite y) = Finite 0" "d_mul (Finite x) (Finite 0) = Finite 0"
  "d_add (Finite 0) (Finite 0) = Finite 0" "d_sub (Finite x) (Finite x) = Finite 0"
  "d_div (Finite 0) 2 = Finite 0" "d_sub (Finite 1) (Finite 0) = Finite 1"
  by (simp_all add: d_mul_def d_add_def d_sub_def d_div_def fl_0 fl_1)

subsection \<open>Helper lemmas on the arrival time\<close>





subsection \<open>Helper lemmas on the distance\<close>

lemma radians_factor: "\<exists>k. d_div (Finite Math_PI) 180 = Finite k \<and> \<bar>k\<bar> \<le> 1"
proof -
  have "\<bar>Math_PI / 180\<bar> \<le> 1" by (simp add: Math_PI_def)
  from fl_abs_le_one [OF this] show ?thesis by (simp add: d_div_def)
qed

lemma toRadians_zero: "toRadians (Finite 0) = Finite 0"
  using radians_factor by (auto simp: toRadians_def d_zero)

lemma toRadians_finite:
  assumes "\<bar>x\<bar> \<le> 2 ^ 1023"
  shows "\<exists>r. toRadians (Finite x) = Finite r"
proof -
  obtain k where k: "d_div (Finite Math_PI) 180 = Finite k" "\<bar>k\<bar> \<le> 1"
    using radians_factor by blast
  have "\<bar>x * k\<bar> \<le> \<bar>x\<bar> * 1" unfolding abs_mult using k(2) by (intro mult_left_mono) simp_all
  with assms have "\<bar>x * k\<bar> \<le> 2 ^ 1023" by simp
  from fl_error [OF this] show ?thesis
    by (auto simp: toRadians_def k(1) d_mul_def)
qed

lemma calculateDistance_same:
  assumes "conforming L" "\<bar>lat\<bar> \<le> 2 ^ 1023"
  shows "calculateDistance L lat lon lat lon = Finite 0"
proof -
  obtain r where r: "toRadians (Finite lat) = Finite r"
    using toRadians_finite [OF assms(2)] by blast
  obtain c where c: "Math_cos L (Finite r) = Finite c" "\<bar>c\<bar> \<le> 1"
    using assms(1) unfolding conforming_def by blast
  have "\<bar>c\<bar> * \<bar>c\<bar> \<le> 1 * 1" using c(2) by (intro mult_mono) simp_all
  then have "\<bar>c * c\<bar> \<le> 1" by (simp add: abs_mult)
  from fl_abs_le_one [OF this] obtain c2 where c2: "d_mul (Finite c) (Finite c) = Finite c2"
    by (auto simp: d_mul_def)
  have s: "Math_sin L (Finite 0) = Finite 0" and t: "Math_atan2 L (Finite 0) (Finite 1) = Finite 0"
    using assms(1) unfolding conforming_def by blast+
  have q: "Math_sqrt (Finite 0) = Finite 0" "Math_sqrt (Finite 1) = Finite 1"
    by (simp_all add: Math_sqrt_def fl_0 fl_1)
  show ?thesis
    unfolding calculateDistance_def Let_def d_zero toRadians_zero s r c c2 q t
    by (simp add: d_zero)
qed

lemma conforming_exampleMath: "conforming exampleMath"
proof -
  have "\<exists>c. fl (cos x) = Finite c \<and> \<bar>c\<bar> \<le> 1" for x :: real
    by (rule fl_abs_le_one) simp
  then show ?thesis
    by (simp add: conforming_def exampleMath_def fl_0 atan2_real_def)
qed

subsection \<open>Helper lemmas on two nearly antipodal points\<close>

text \<open>
  The distance from latitude -82, longitude -180 to latitude 82, longitude 0,
  step by step in doubles. The sine and the cosine are needed at three
  arguments. Each is enclosed by its Taylor polynomial and the remainder, the
  powers of the argument being bounded step by step, closely enough to fix the
  double nearest to it.
\<close>

lemma power_step:
  fixes x :: real
  assumes "l \<le> x ^ m" "x ^ m \<le> u" "yl \<le> x ^ 2" "x ^ 2 \<le> yu"
    and "m + 2 = n"
    and "0 \<le> l \<and> 0 \<le> yl \<and> l' \<le> l * yl \<and> u * yu \<le> u'"
  shows "l' \<le> x ^ n" "x ^ n \<le> u'"
proof -
  have e: "x ^ n = x ^ m * x ^ 2"
    unfolding assms(5) [symmetric] by (rule power_add)
  have "l * yl \<le> x ^ m * x ^ 2" using assms by (intro mult_mono) simp_all
  moreover have "x ^ m * x ^ 2 \<le> u * yu" using assms by (intro mult_mono) simp_all
  ultimately show "l' \<le> x ^ n" "x ^ n \<le> u'"
    unfolding e using assms(6) by linarith+
qed

lemma sum_lessThan_numeral:
  fixes f :: "nat \<Rightarrow> real"
  shows "(\<Sum>m<numeral k. f m) = (\<Sum>m<pred_numeral k. f m) + f (pred_numeral k)"
  by (simp add: numeral_eq_Suc)

lemma sum_lessThan_one:
  fixes f :: "nat \<Rightarrow> real"
  shows "(\<Sum>m<1. f m) = f 0"
  by simp

lemma cos_taylor_bound:
  fixes x :: real
  assumes "0 < x" "0 < n"
  shows "\<bar>cos x - (\<Sum>m<n. cos_coeff m * x ^ m)\<bar> \<le> x ^ n / fact n"
proof -
  from Maclaurin_cos_expansion2 [OF assms] obtain t where
    t: "cos x = (\<Sum>m<n. cos_coeff m * x ^ m) + (cos (t + 1 / 2 * real n * pi) / fact n) * x ^ n"
    by blast
  have "\<bar>cos x - (\<Sum>m<n. cos_coeff m * x ^ m)\<bar>
          = \<bar>cos (t + 1 / 2 * real n * pi)\<bar> * (x ^ n / fact n)"
    using assms(1) unfolding t by (simp add: abs_mult)
  also have "\<dots> \<le> 1 * (x ^ n / fact n)"
    using assms(1) by (intro mult_right_mono) simp_all
  finally show ?thesis by simp
qed

lemma sin_poly:
  fixes x :: real
  shows "(\<Sum>m<25. sin_coeff m * x ^ m) =
     x - x ^ 3 / fact 3 + x ^ 5 / fact 5 - x ^ 7 / fact 7 + x ^ 9 / fact 9 -
     x ^ 11 / fact 11 + x ^ 13 / fact 13 - x ^ 15 / fact 15 + x ^ 17 / fact 17 -
     x ^ 19 / fact 19 + x ^ 21 / fact 21 - x ^ 23 / fact 23"
  by (simp add: sum_lessThan_numeral sum_lessThan_one sin_coeff_def)

lemma sin_half_dLat:
  "17839083621525747 / 18014398509481984 < sin (6445416618514801 / 2 ^ 52 :: real)"
  "sin (6445416618514801 / 2 ^ 52 :: real) < 17839083621525749 / 18014398509481984"
proof -
  define x :: real where "x = 6445416618514801 / 2 ^ 52"
  have x: "0 < x" "x \<le> 8 / 5" by (simp_all add: x_def)
  have y: "4836287743671188569277 / 2361183241434822606848 \<le> x ^ 2"
          "x ^ 2 \<le> 9672575487342377138555 / 4722366482869645213696"
    by (simp_all add: x_def power_divide)
  have p1: "6445416618514801 / 4503599627370496 \<le> x ^ 1" "x ^ 1 \<le> 6445416618514801 / 4503599627370496"
    by (simp_all add: x_def)
  have p0: "1 \<le> x ^ 0" "x ^ 0 \<le> 1" by simp_all
  have p3: "6921549865474603024697 / 2361183241434822606848 \<le> x ^ 3"
    "x ^ 3 \<le> 13843099730949206049397 / 4722366482869645213696"
    using power_step [OF p1 y, of 3
        "6921549865474603024697 / 2361183241434822606848"
        "13843099730949206049397 / 4722366482869645213696"]
    by simp_all
  have p5: "14177047420200322318339 / 2361183241434822606848 \<le> x ^ 5"
    "x ^ 5 \<le> 1772130927525040289793 / 295147905179352825856"
    using power_step [OF p3 y, of 5
        "14177047420200322318339 / 2361183241434822606848"
        "1772130927525040289793 / 295147905179352825856"]
    by simp_all
  have p7: "58076204740548248061029 / 4722366482869645213696 \<le> x ^ 7"
    "x ^ 7 \<le> 58076204740548248061057 / 4722366482869645213696"
    using power_step [OF p5 y, of 7
        "58076204740548248061029 / 4722366482869645213696"
        "58076204740548248061057 / 4722366482869645213696"]
    by simp_all
  have p9: "118954442949109510042995 / 4722366482869645213696 \<le> x ^ 9"
    "x ^ 9 \<le> 118954442949109510043065 / 4722366482869645213696"
    using power_step [OF p7 y, of 9
        "118954442949109510042995 / 4722366482869645213696"
        "118954442949109510043065 / 4722366482869645213696"]
    by simp_all
  have p11: "243648144029863643021293 / 4722366482869645213696 \<le> x ^ 11"
    "x ^ 11 \<le> 243648144029863643021463 / 4722366482869645213696"
    using power_step [OF p9 y, of 11
        "243648144029863643021293 / 4722366482869645213696"
        "243648144029863643021463 / 4722366482869645213696"]
    by simp_all
  have p13: "15595365917362730514591 / 147573952589676412928 \<le> x ^ 13"
    "x ^ 13 \<le> 499051709355607376467313 / 4722366482869645213696"
    using power_step [OF p11 y, of 13
        "15595365917362730514591 / 147573952589676412928"
        "499051709355607376467313 / 4722366482869645213696"]
    by simp_all
  have p15: "1022181431352202533811207 / 4722366482869645213696 \<le> x ^ 15"
    "x ^ 15 \<le> 1022181431352202533812135 / 4722366482869645213696"
    using power_step [OF p13 y, of 15
        "1022181431352202533811207 / 4722366482869645213696"
        "1022181431352202533812135 / 4722366482869645213696"]
    by simp_all
  have p17: "2093680592639167334144675 / 4722366482869645213696 \<le> x ^ 17"
    "x ^ 17 \<le> 1046840296319583667073397 / 2361183241434822606848"
    using power_step [OF p15 y, of 17
        "2093680592639167334144675 / 4722366482869645213696"
        "1046840296319583667073397 / 2361183241434822606848"]
    by simp_all
  have p19: "4288376103834269339002349 / 4722366482869645213696 \<le> x ^ 19"
    "x ^ 19 \<le> 4288376103834269339007133 / 4722366482869645213696"
    using power_step [OF p17 y, of 19
        "4288376103834269339002349 / 4722366482869645213696"
        "4288376103834269339007133 / 4722366482869645213696"]
    by simp_all
  have p21: "2195913941289780337697435 / 1180591620717411303424 \<le> x ^ 21"
    "x ^ 21 \<le> 137244621330611271106257 / 73786976294838206464"
    using power_step [OF p19 y, of 21
        "2195913941289780337697435 / 1180591620717411303424"
        "137244621330611271106257 / 73786976294838206464"]
    by simp_all
  have p23: "17991101231030165880365931 / 4722366482869645213696 \<le> x ^ 23"
    "x ^ 23 \<le> 4497775307757541470097431 / 1180591620717411303424"
    using power_step [OF p21 y, of 23
        "17991101231030165880365931 / 4722366482869645213696"
        "4497775307757541470097431 / 1180591620717411303424"]
    by simp_all
  have v: "x = 6445416618514801 / 2 ^ 52" by (rule x_def)
  have s: "584551092110155680225 / 590295810358705651712 \<le> (\<Sum>m<25. sin_coeff m * x ^ m)"
          "(\<Sum>m<25. sin_coeff m * x ^ m) \<le> 2338204368440622720901 / 2361183241434822606848"
    unfolding sin_poly using v
      p3 p5 p7 p9 p11 p13 p15 p17 p19 p21 p23
    by (simp_all add: fact_numeral)
  have "x ^ 25 \<le> (8 / 5) ^ 25" using x by (intro power_mono) simp_all
  then have r: "x ^ 25 / fact 25 \<le> 39 / 4722366482869645213696" by (simp add: fact_numeral power_divide)
  have "\<bar>sin x - (\<Sum>m<25. sin_coeff m * x ^ m)\<bar> \<le> inverse (fact 25) * \<bar>x\<bar> ^ 25"
    by (rule Maclaurin_sin_bound)
  then have b: "\<bar>sin x - (\<Sum>m<25. sin_coeff m * x ^ m)\<bar> \<le> x ^ 25 / fact 25"
    using x by (simp add: field_simps)
  have g: "(17839083621525747 / 18014398509481984 :: real)
             < 584551092110155680225 / 590295810358705651712 - 39 / 4722366482869645213696"
          "(2338204368440622720901 / 2361183241434822606848 :: real) + 39 / 4722366482869645213696
             < 17839083621525749 / 18014398509481984"
    by simp_all
  have "17839083621525747 / 18014398509481984 < sin x" "sin x < 17839083621525749 / 18014398509481984"
    using b r s g by linarith+
  then show "17839083621525747 / 18014398509481984 < sin (6445416618514801 / 2 ^ 52 :: real)"
    and "sin (6445416618514801 / 2 ^ 52 :: real) < 17839083621525749 / 18014398509481984"
    unfolding x_def by simp_all
qed

lemma sin_half_dLon:
  "18014398509481983 / 18014398509481984 < sin (884279719003555 / 2 ^ 49 :: real)"
  "sin (884279719003555 / 2 ^ 49 :: real) < 18014398509481985 / 18014398509481984"
proof -
  define x :: real where "x = 884279719003555 / 2 ^ 49"
  have x: "0 < x" "x \<le> 8 / 5" by (simp_all add: x_def)
  have y: "11651972255721780505807 / 4722366482869645213696 \<le> x ^ 2"
          "x ^ 2 \<le> 728248265982611281613 / 295147905179352825856"
    by (simp_all add: x_def power_divide)
  have p1: "884279719003555 / 562949953421312 \<le> x ^ 1" "x ^ 1 \<le> 884279719003555 / 562949953421312"
    by (simp_all add: x_def)
  have p0: "1 \<le> x ^ 0" "x ^ 0 \<le> 1" by simp_all
  have p3: "571964850600119310521 / 147573952589676412928 \<le> x ^ 3"
    "x ^ 3 \<le> 18302875219203817936675 / 4722366482869645213696"
    using power_step [OF p1 y, of 3
        "571964850600119310521 / 147573952589676412928"
        "18302875219203817936675 / 4722366482869645213696"]
    by simp_all
  have p5: "45160534454010836697643 / 4722366482869645213696 \<le> x ^ 5"
    "x ^ 5 \<le> 5645066806751354587207 / 590295810358705651712"
    using power_step [OF p3 y, of 5
        "45160534454010836697643 / 4722366482869645213696"
        "5645066806751354587207 / 590295810358705651712"]
    by simp_all
  have p7: "27857288100178308387985 / 1180591620717411303424 \<le> x ^ 7"
    "x ^ 7 \<le> 55714576200356616775991 / 2361183241434822606848"
    using power_step [OF p5 y, of 7
        "27857288100178308387985 / 1180591620717411303424"
        "55714576200356616775991 / 2361183241434822606848"]
    by simp_all
  have p9: "274940413235934028704581 / 4722366482869645213696 \<le> x ^ 9"
    "x ^ 9 \<le> 274940413235934028704709 / 4722366482869645213696"
    using power_step [OF p7 y, of 9
        "274940413235934028704581 / 4722366482869645213696"
        "274940413235934028704709 / 4722366482869645213696"]
    by simp_all
  have p11: "339194139063837653134855 / 2361183241434822606848 \<le> x ^ 11"
    "x ^ 11 \<le> 678388278127675306270085 / 4722366482869645213696"
    using power_step [OF p9 y, of 11
        "339194139063837653134855 / 2361183241434822606848"
        "678388278127675306270085 / 4722366482869645213696"]
    by simp_all
  have p13: "418463995966020972514179 / 1180591620717411303424 \<le> x ^ 13"
    "x ^ 13 \<le> 836927991932041945028893 / 2361183241434822606848"
    using power_step [OF p11 y, of 13
        "418463995966020972514179 / 1180591620717411303424"
        "836927991932041945028893 / 2361183241434822606848"]
    by simp_all
  have p15: "4130074096283679879500695 / 4722366482869645213696 \<le> x ^ 15"
    "x ^ 15 \<le> 2065037048141839939751845 / 2361183241434822606848"
    using power_step [OF p13 y, of 15
        "4130074096283679879500695 / 4722366482869645213696"
        "2065037048141839939751845 / 2361183241434822606848"]
    by simp_all
  have p17: "10190549369376639805539911 / 4722366482869645213696 \<le> x ^ 17"
    "x ^ 17 \<le> 10190549369376639805548177 / 4722366482869645213696"
    using power_step [OF p15 y, of 17
        "10190549369376639805539911 / 4722366482869645213696"
        "10190549369376639805548177 / 4722366482869645213696"]
    by simp_all
  have p19: "25144172726379516106712461 / 4722366482869645213696 \<le> x ^ 19"
    "x ^ 19 \<le> 3143021590797439513341877 / 590295810358705651712"
    using power_step [OF p17 y, of 19
        "25144172726379516106712461 / 4722366482869645213696"
        "3143021590797439513341877 / 590295810358705651712"]
    by simp_all
  have p21: "31020379725253283770245733 / 2361183241434822606848 \<le> x ^ 21"
    "x ^ 21 \<le> 15510189862626641885138111 / 1180591620717411303424"
    using power_step [OF p19 y, of 21
        "31020379725253283770245733 / 2361183241434822606848"
        "15510189862626641885138111 / 1180591620717411303424"]
    by simp_all
  have p23: "153079438129911447378635859 / 4722366482869645213696 \<le> x ^ 23"
    "x ^ 23 \<le> 153079438129911447378799455 / 4722366482869645213696"
    using power_step [OF p21 y, of 23
        "153079438129911447378635859 / 4722366482869645213696"
        "153079438129911447378799455 / 4722366482869645213696"]
    by simp_all
  have v: "x = 884279719003555 / 2 ^ 49" by (rule x_def)
  have s: "4722366482869645213671 / 4722366482869645213696 \<le> (\<Sum>m<25. sin_coeff m * x ^ m)"
          "(\<Sum>m<25. sin_coeff m * x ^ m) \<le> 4722366482869645213673 / 4722366482869645213696"
    unfolding sin_poly using v
      p3 p5 p7 p9 p11 p13 p15 p17 p19 p21 p23
    by (simp_all add: fact_numeral)
  have "x ^ 25 \<le> (8 / 5) ^ 25" using x by (intro power_mono) simp_all
  then have r: "x ^ 25 / fact 25 \<le> 39 / 4722366482869645213696" by (simp add: fact_numeral power_divide)
  have "\<bar>sin x - (\<Sum>m<25. sin_coeff m * x ^ m)\<bar> \<le> inverse (fact 25) * \<bar>x\<bar> ^ 25"
    by (rule Maclaurin_sin_bound)
  then have b: "\<bar>sin x - (\<Sum>m<25. sin_coeff m * x ^ m)\<bar> \<le> x ^ 25 / fact 25"
    using x by (simp add: field_simps)
  have g: "(18014398509481983 / 18014398509481984 :: real)
             < 4722366482869645213671 / 4722366482869645213696 - 39 / 4722366482869645213696"
          "(4722366482869645213673 / 4722366482869645213696 :: real) + 39 / 4722366482869645213696
             < 18014398509481985 / 18014398509481984"
    by simp_all
  have "18014398509481983 / 18014398509481984 < sin x" "sin x < 18014398509481985 / 18014398509481984"
    using b r s g by linarith+
  then show "18014398509481983 / 18014398509481984 < sin (884279719003555 / 2 ^ 49 :: real)"
    and "sin (884279719003555 / 2 ^ 49 :: real) < 18014398509481985 / 18014398509481984"
    unfolding x_def by simp_all
qed

lemma cos_poly:
  fixes x :: real
  shows "(\<Sum>m<26. cos_coeff m * x ^ m) =
     1 - x ^ 2 / fact 2 + x ^ 4 / fact 4 - x ^ 6 / fact 6 + x ^ 8 / fact 8 -
     x ^ 10 / fact 10 + x ^ 12 / fact 12 - x ^ 14 / fact 14 + x ^ 16 / fact 16 -
     x ^ 18 / fact 18 + x ^ 20 / fact 20 - x ^ 22 / fact 22 + x ^ 24 / fact 24"
  by (simp add: sum_lessThan_numeral sum_lessThan_one cos_coeff_def)

lemma cos_lat:
  "10028478809979955 / 72057594037927936 < cos (6445416618514801 / 2 ^ 52 :: real)"
  "cos (6445416618514801 / 2 ^ 52 :: real) < 10028478809979957 / 72057594037927936"
proof -
  define x :: real where "x = 6445416618514801 / 2 ^ 52"
  have x: "0 < x" "x \<le> 8 / 5" by (simp_all add: x_def)
  have y: "4836287743671188569277 / 2361183241434822606848 \<le> x ^ 2"
          "x ^ 2 \<le> 9672575487342377138555 / 4722366482869645213696"
    by (simp_all add: x_def power_divide)
  have p1: "6445416618514801 / 4503599627370496 \<le> x ^ 1" "x ^ 1 \<le> 6445416618514801 / 4503599627370496"
    by (simp_all add: x_def)
  have p0: "1 \<le> x ^ 0" "x ^ 0 \<le> 1" by simp_all
  note p2 = y
  have p4: "19811828856934395475089 / 4722366482869645213696 \<le> x ^ 4"
    "x ^ 4 \<le> 9905914428467197737547 / 2361183241434822606848"
    using power_step [OF p2 y, of 4
        "19811828856934395475089 / 4722366482869645213696"
        "9905914428467197737547 / 2361183241434822606848"]
    by simp_all
  have p6: "158513787241381419021 / 18446744073709551616 \<le> x ^ 6"
    "x ^ 6 \<le> 2536220595862102704337 / 295147905179352825856"
    using power_step [OF p4 y, of 6
        "158513787241381419021 / 18446744073709551616"
        "2536220595862102704337 / 295147905179352825856"]
    by simp_all
  have p8: "83116921162362299382303 / 4722366482869645213696 \<le> x ^ 8"
    "x ^ 8 \<le> 41558460581181149691173 / 2361183241434822606848"
    using power_step [OF p6 y, of 8
        "83116921162362299382303 / 4722366482869645213696"
        "41558460581181149691173 / 2361183241434822606848"]
    by simp_all
  have p10: "170244028525692587931491 / 4722366482869645213696 \<le> x ^ 10"
    "x ^ 10 \<le> 85122014262846293965799 / 2361183241434822606848"
    using power_step [OF p8 y, of 10
        "170244028525692587931491 / 4722366482869645213696"
        "85122014262846293965799 / 2361183241434822606848"]
    by simp_all
  have p12: "348701911034947835954099 / 4722366482869645213696 \<le> x ^ 12"
    "x ^ 12 \<le> 348701911034947835954355 / 4722366482869645213696"
    using power_step [OF p10 y, of 12
        "348701911034947835954099 / 4722366482869645213696"
        "348701911034947835954355 / 4722366482869645213696"]
    by simp_all
  have p14: "714227828208813292308025 / 4722366482869645213696 \<le> x ^ 14"
    "x ^ 14 \<le> 44639239263050830769289 / 295147905179352825856"
    using power_step [OF p12 y, of 14
        "714227828208813292308025 / 4722366482869645213696"
        "44639239263050830769289 / 295147905179352825856"]
    by simp_all
  have p16: "731457692723617430338151 / 2361183241434822606848 \<le> x ^ 16"
    "x ^ 16 \<le> 731457692723617430338841 / 2361183241434822606848"
    using power_step [OF p14 y, of 16
        "731457692723617430338151 / 2361183241434822606848"
        "731457692723617430338841 / 2361183241434822606848"]
    by simp_all
  have p18: "1498206412893044622952595 / 2361183241434822606848 \<le> x ^ 18"
    "x ^ 18 \<le> 2996412825786089245908327 / 4722366482869645213696"
    using power_step [OF p16 y, of 18
        "1498206412893044622952595 / 2361183241434822606848"
        "2996412825786089245908327 / 4722366482869645213696"]
    by simp_all
  have p20: "1534348792802961626409339 / 1180591620717411303424 \<le> x ^ 20"
    "x ^ 20 \<le> 6137395171211846505644417 / 4722366482869645213696"
    using power_step [OF p18 y, of 20
        "1534348792802961626409339 / 1180591620717411303424"
        "6137395171211846505644417 / 4722366482869645213696"]
    by simp_all
  have p22: "6285452252016148315696093 / 2361183241434822606848 \<le> x ^ 22"
    "x ^ 22 \<le> 12570904504032296631407949 / 4722366482869645213696"
    using power_step [OF p20 y, of 22
        "6285452252016148315696093 / 2361183241434822606848"
        "12570904504032296631407949 / 4722366482869645213696"]
    by simp_all
  have p24: "3218540513546084428626593 / 590295810358705651712 \<le> x ^ 24"
    "x ^ 24 \<le> 12874162054184337714523847 / 2361183241434822606848"
    using power_step [OF p22 y, of 24
        "3218540513546084428626593 / 590295810358705651712"
        "12874162054184337714523847 / 2361183241434822606848"]
    by simp_all
  have v: "x = 6445416618514801 / 2 ^ 52" by (rule x_def)
  have s: "641822643838717227 / 4611686018427387904 \<le> (\<Sum>m<26. cos_coeff m * x ^ m)"
          "(\<Sum>m<26. cos_coeff m * x ^ m) \<le> 657226387290846440449 / 4722366482869645213696"
    unfolding cos_poly using v
      p2 p4 p6 p8 p10 p12 p14 p16 p18 p20 p22 p24
    by (simp_all add: fact_numeral)
  have "x ^ 26 \<le> (8 / 5) ^ 26" using x by (intro power_mono) simp_all
  then have r: "x ^ 26 / fact 26 \<le> 3 / 4722366482869645213696" by (simp add: fact_numeral power_divide)
  have b: "\<bar>cos x - (\<Sum>m<26. cos_coeff m * x ^ m)\<bar> \<le> x ^ 26 / fact 26"
    using x by (intro cos_taylor_bound) simp_all
  have g: "(10028478809979955 / 72057594037927936 :: real)
             < 641822643838717227 / 4611686018427387904 - 3 / 4722366482869645213696"
          "(657226387290846440449 / 4722366482869645213696 :: real) + 3 / 4722366482869645213696
             < 10028478809979957 / 72057594037927936"
    by simp_all
  have "10028478809979955 / 72057594037927936 < cos x" "cos x < 10028478809979957 / 72057594037927936"
    using b r s g by linarith+
  then show "10028478809979955 / 72057594037927936 < cos (6445416618514801 / 2 ^ 52 :: real)"
    and "cos (6445416618514801 / 2 ^ 52 :: real) < 10028478809979957 / 72057594037927936"
    unfolding x_def by simp_all
qed

lemma rne_near:
  assumes "\<bar>y - of_int N\<bar> < 1 / 2"
  shows "rne y = N"
proof -
  have a: "of_int N - 1 / 2 < y" "y < of_int N + 1 / 2"
    using assms unfolding abs_less_iff by linarith+
  show ?thesis
  proof (cases "of_int N \<le> y")
    case True
    have "\<lfloor>y\<rfloor> = N"
    proof (rule floor_unique)
      show "of_int N \<le> y" by (rule True)
      show "y < of_int N + 1" using a by linarith
    qed
    moreover have "y - of_int N < 1 / 2" using a by linarith
    ultimately show ?thesis by (simp add: rne_def Let_def)
  next
    case False
    have f: "\<lfloor>y\<rfloor> = N - 1"
    proof (rule floor_unique)
      have "of_int N - 1 \<le> y" using a by linarith
      then show "of_int (N - 1) \<le> y" by simp
      show "y < of_int (N - 1) + 1" using False by simp
    qed
    have "1 / 2 < y - (of_int N - 1)" using a by linarith
    then have g: "1 / 2 < y - of_int (N - 1)" by simp
    then have "\<not> y - of_int (N - 1) < 1 / 2" by linarith
    with g show ?thesis
      unfolding rne_def Let_def f by simp
  qed
qed

lemma fl_near_down:
  fixes n :: nat
  assumes "1 / 2 ^ n \<le> \<bar>x\<bar>" "\<bar>x\<bar> < 2 / 2 ^ n" "0 < n" "n \<le> 1022"
    and "\<bar>x * 2 ^ (52 + n) - of_int N\<bar> < 1 / 2"
  shows "fl x = Finite (of_int N / 2 ^ (52 + n))"
  using fl_normal_down [OF assms(1-4)] rne_near [OF assms(5)] by simp

lemma fl_sin_half_dLat:
  "fl (sin (6445416618514801 / 2 ^ 52)) = Finite (4459770905381437 / 2 ^ 52)"
proof -
  define s :: real where "s = sin (6445416618514801 / 2 ^ 52)"
  have e: "17839083621525747 / 18014398509481984 < s" "s < 17839083621525749 / 18014398509481984"
    unfolding s_def by (rule sin_half_dLat)+
  have "1 / 2 \<le> \<bar>s\<bar>" "\<bar>s\<bar> < 1"
    using e by linarith+
  then have 1: "1 / 2 ^ 1 \<le> \<bar>s\<bar>" "\<bar>s\<bar> < 2 / 2 ^ 1" by simp_all
  have "\<bar>s * 9007199254740992 - 8919541810762874\<bar> < 1 / 2"
    using e by linarith
  then have 2: "\<bar>s * 2 ^ (52 + 1) - of_int 8919541810762874\<bar> < 1 / 2" by simp
  have "fl s = Finite (of_int 8919541810762874 / 2 ^ (52 + 1))"
    using 1 2 by (intro fl_near_down) simp_all
  then show ?thesis unfolding s_def by simp
qed

lemma fl_cos_lat:
  "fl (cos (6445416618514801 / 2 ^ 52)) = Finite (2507119702494989 / 2 ^ 54)"
proof -
  define c :: real where "c = cos (6445416618514801 / 2 ^ 52)"
  have e: "10028478809979955 / 72057594037927936 < c" "c < 10028478809979957 / 72057594037927936"
    unfolding c_def by (rule cos_lat)+
  have "1 / 8 \<le> \<bar>c\<bar>" "\<bar>c\<bar> < 1 / 4"
    using e by linarith+
  then have 1: "1 / 2 ^ 3 \<le> \<bar>c\<bar>" "\<bar>c\<bar> < 2 / 2 ^ 3" by simp_all
  have "\<bar>c * 36028797018963968 - 5014239404989978\<bar> < 1 / 2"
    using e by linarith
  then have 2: "\<bar>c * 2 ^ (52 + 3) - of_int 5014239404989978\<bar> < 1 / 2" by simp
  have "fl c = Finite (of_int 5014239404989978 / 2 ^ (52 + 3))"
    using 1 2 by (intro fl_near_down) simp_all
  then show ?thesis unfolding c_def by simp
qed

lemma fl_sin_half_dLon:
  "fl (sin (884279719003555 / 2 ^ 49)) = Finite 1"
proof -
  define s :: real where "s = sin (884279719003555 / 2 ^ 49)"
  have e: "18014398509481983 / 18014398509481984 < s"
    unfolding s_def by (rule sin_half_dLon)
  show ?thesis
  proof (cases "s = 1")
    case True
    then show ?thesis unfolding s_def [symmetric] by (simp add: fl_1)
  next
    case False
    moreover have "s \<le> 1" unfolding s_def by simp
    ultimately have u: "s < 1" by simp
    have "1 / 2 \<le> \<bar>s\<bar>" "\<bar>s\<bar> < 1"
      using e u by linarith+
    then have 1: "1 / 2 ^ 1 \<le> \<bar>s\<bar>" "\<bar>s\<bar> < 2 / 2 ^ 1" by simp_all
    have "\<bar>s * 9007199254740992 - 9007199254740992\<bar> < 1 / 2"
      using e u by linarith
    then have 2: "\<bar>s * 2 ^ (52 + 1) - of_int 9007199254740992\<bar> < 1 / 2" by simp
    have "fl s = Finite (of_int 9007199254740992 / 2 ^ (52 + 1))"
      using 1 2 by (intro fl_near_down) simp_all
    then show ?thesis unfolding s_def by simp
  qed
qed

lemma radians_factor_value: "d_div (Finite Math_PI) 180 = Finite (5030569068109113 / 2 ^ 58)"
  using fl_normal_down [of 6 "Math_PI / 180"]
  by (simp add: d_div_def Math_PI_def rne_def)

lemma toRadians_values:
  "toRadians (Finite 164) = Finite (6445416618514801 / 2 ^ 51)"
  "toRadians (Finite 180) = Finite (884279719003555 / 2 ^ 48)"
  "toRadians (Finite 82) = Finite (6445416618514801 / 2 ^ 52)"
  "toRadians (Finite (- 82)) = Finite (- (6445416618514801 / 2 ^ 52))"
proof -
  show "toRadians (Finite 164) = Finite (6445416618514801 / 2 ^ 51)"
    using fl_normal_up [of 1 "164 * (5030569068109113 / 2 ^ 58)"]
    by (simp add: toRadians_def radians_factor_value d_mul_def rne_def)
  show "toRadians (Finite 180) = Finite (884279719003555 / 2 ^ 48)"
    using fl_normal_up [of 1 "180 * (5030569068109113 / 2 ^ 58)"]
    by (simp add: toRadians_def radians_factor_value d_mul_def rne_def)
  show "toRadians (Finite 82) = Finite (6445416618514801 / 2 ^ 52)"
    using fl_normal_up [of 0 "82 * (5030569068109113 / 2 ^ 58)"]
    by (simp add: toRadians_def radians_factor_value d_mul_def rne_def)
  show "toRadians (Finite (- 82)) = Finite (- (6445416618514801 / 2 ^ 52))"
    using fl_normal_up [of 0 "- 82 * (5030569068109113 / 2 ^ 58)"]
    by (simp add: toRadians_def radians_factor_value d_mul_def rne_def)
qed

lemma near_antipodal_steps:
  "d_sub (Finite 82) (Finite (- 82)) = Finite 164"
  "d_sub (Finite 0) (Finite (- 180)) = Finite 180"
  "d_div (Finite (6445416618514801 / 2 ^ 51)) 2 = Finite (6445416618514801 / 2 ^ 52)"
  "d_div (Finite (884279719003555 / 2 ^ 48)) 2 = Finite (884279719003555 / 2 ^ 49)"
  "d_mul (Finite (4459770905381437 / 2 ^ 52)) (Finite (4459770905381437 / 2 ^ 52))
     = Finite (8832737443003841 / 2 ^ 53)"
  "d_mul (Finite (2507119702494989 / 2 ^ 54)) (Finite (2507119702494989 / 2 ^ 54))
     = Finite (2791388987794435 / 2 ^ 57)"
  "d_mul (Finite (2791388987794435 / 2 ^ 57)) (Finite 1) = Finite (2791388987794435 / 2 ^ 57)"
  "d_add (Finite (8832737443003841 / 2 ^ 53)) (Finite (2791388987794435 / 2 ^ 57))
     = Finite (1 + 1 / 2 ^ 52)"
  "d_sub (Finite 1) (Finite (1 + 1 / 2 ^ 52)) = Finite (- (1 / 2 ^ 52))"
proof -
  show "d_sub (Finite 82) (Finite (- 82)) = Finite 164"
    using fl_int [of 164] by (simp add: d_sub_def d_add_def)
  show "d_sub (Finite 0) (Finite (- 180)) = Finite 180"
    using fl_int [of 180] by (simp add: d_sub_def d_add_def)
  show "d_div (Finite (6445416618514801 / 2 ^ 51)) 2 = Finite (6445416618514801 / 2 ^ 52)"
    using fl_normal_up [of 0 "6445416618514801 / 2 ^ 51 / 2"]
    by (simp add: d_div_def rne_def)
  show "d_div (Finite (884279719003555 / 2 ^ 48)) 2 = Finite (884279719003555 / 2 ^ 49)"
    using fl_normal_up [of 0 "884279719003555 / 2 ^ 48 / 2"]
    by (simp add: d_div_def rne_def)
  show "d_mul (Finite (4459770905381437 / 2 ^ 52)) (Finite (4459770905381437 / 2 ^ 52))
     = Finite (8832737443003841 / 2 ^ 53)"
    using fl_normal_down [of 1 "4459770905381437 / 2 ^ 52 * (4459770905381437 / 2 ^ 52)"]
    by (simp add: d_mul_def rne_def)
  show "d_mul (Finite (2507119702494989 / 2 ^ 54)) (Finite (2507119702494989 / 2 ^ 54))
     = Finite (2791388987794435 / 2 ^ 57)"
    using fl_normal_down [of 6 "2507119702494989 / 2 ^ 54 * (2507119702494989 / 2 ^ 54)"]
    by (simp add: d_mul_def rne_def)
  show "d_mul (Finite (2791388987794435 / 2 ^ 57)) (Finite 1) = Finite (2791388987794435 / 2 ^ 57)"
    using fl_normal_down [of 6 "2791388987794435 / 2 ^ 57"]
    by (simp add: d_mul_def rne_def)
  show "d_add (Finite (8832737443003841 / 2 ^ 53)) (Finite (2791388987794435 / 2 ^ 57))
     = Finite (1 + 1 / 2 ^ 52)"
    using fl_normal_up [of 0 "8832737443003841 / 2 ^ 53 + 2791388987794435 / 2 ^ 57"]
    by (simp add: d_add_def rne_def)
  show "d_sub (Finite 1) (Finite (1 + 1 / 2 ^ 52)) = Finite (- (1 / 2 ^ 52))"
    using fl_normal_down [of 52 "- (1 / 2 ^ 52)"]
    by (simp add: d_sub_def d_add_def rne_def)
qed

lemma near_antipodal_nan:
  assumes "Math_sin L (Finite (6445416618514801 / 2 ^ 52)) = Finite (4459770905381437 / 2 ^ 52)"
    and "Math_sin L (Finite (884279719003555 / 2 ^ 49)) = Finite 1"
    and "Math_cos L (Finite (6445416618514801 / 2 ^ 52)) = Finite (2507119702494989 / 2 ^ 54)"
    and "Math_cos L (Finite (- (6445416618514801 / 2 ^ 52))) = Finite (2507119702494989 / 2 ^ 54)"
    and "\<And>y. Math_atan2 L y NaN = NaN"
  shows "calculateDistance L (- 82) (- 180) 82 0 = NaN"
proof -
  have q: "Math_sqrt (Finite (- (1 / 2 ^ 52))) = NaN"
    by (simp add: Math_sqrt_def)
  have m: "d_mul (Finite 2) NaN = NaN" "d_mul (Finite 6371000) NaN = NaN"
    by (simp_all add: d_mul_def)
  show ?thesis
    unfolding calculateDistance_def Let_def near_antipodal_steps(1,2) toRadians_values
      near_antipodal_steps(3,4) assms(1-4) near_antipodal_steps(5-9) q assms(5) m
    by (rule refl)
qed

lemma exampleMath_atan2_NaN: "Math_atan2 exampleMath y NaN = NaN"
  by (cases y) (simp_all add: exampleMath_def)

subsection \<open>Helper lemmas on saving a hospital\<close>

lemma metropolitan_valid: "validateHospital metropolitanGeneral"
  by (simp add: validateHospital_def metropolitanGeneral_def capacityValid_def specialtyEnum_def
                traumaLevelEnum_def hospitalStatusEnum_def)

lemma metropolitan_invariant: "capacityInvariant metropolitanGeneral"
  by (simp add: capacityInvariant_def metropolitanGeneral_def)

lemma preSave_invariant:
  "capacityValid (capacity h) \<Longrightarrow> capacityInvariant (preSave h now)"
  by (simp add: capacityValid_def capacityInvariant_def preSave_def Let_def)

lemma preSave_fixed:
  "capacityInvariant h \<Longrightarrow> preSave h now = h\<lparr>updatedAt := now\<rparr>"
  by (simp add: capacityInvariant_def preSave_def Let_def)

lemma save_invariant: "save h now = Inr h' \<Longrightarrow> capacityInvariant h'"
  by (auto simp: save_def validateHospital_def preSave_invariant split: if_splits)




lemma fractional_capacity_stored:
  "updateCapacity metropolitanGeneral
     \<lparr>cd_totalBeds = Some (21 / 2), cd_availableBeds = Some 11, cd_icuBeds = None,
      cd_availableIcuBeds = None, cd_emergencyRooms = None, cd_availableEmergencyRooms = None\<rparr> 500
   = Inr (metropolitanGeneral
            \<lparr>capacity := (capacity metropolitanGeneral)
                           \<lparr>totalBeds := 21 / 2, availableBeds := 21 / 2, lastUpdated := 500\<rparr>,
             lastCapacityUpdate := 500, updatedAt := 500\<rparr>)"
  by (simp add: updateCapacity_def assignCapacity_def save_def preSave_def Let_def
        validateHospital_def capacityValid_def metropolitanGeneral_def specialtyEnum_def
        traumaLevelEnum_def hospitalStatusEnum_def)

subsection \<open>Helper lemmas on the status update\<close>

lemma stampMilestone_fields:
  "response_status (stampMilestone t now e) = response_status e"
  "timeline (stampMilestone t now e) = timeline e"
  "ambulance_status (stampMilestone t now e) = ambulance_status e"
  by (cases t; simp)+

lemma updateStatus_valid:
  assumes "validateEmergency e"
  shows "updateStatus e target updatedBy details now =
           (Inl ParallelSaveError,
            Some ((stampMilestone target now
                    (e\<lparr>response_status := target,
                       timeline := timeline e @
                         [\<lparr>tl_timestamp = now, tl_event = ''Status changed to '' @ statusName target,
                           tl_details = details, tl_updatedBy = updatedBy, tl_location = None\<rparr>]\<rparr>))
                  \<lparr>emergency_updatedAt := now\<rparr>))"
  using assms
  by (simp add: updateStatus_def Let_def timelinePush_def saveEmergency_def validateEmergency_def
                stampMilestone_fields)

lemma updateStatus_rejects: "fst (updateStatus e target updatedBy details now) = Inl ParallelSaveError"
  by (simp add: updateStatus_def Let_def)

lemma sampleEmergency_valid: "validateEmergency sampleEmergency"
  by (simp add: validateEmergency_def sampleEmergency_def ambulanceStatusEnum_def)

subsection \<open>Helper lemmas on the scores and the sort\<close>

lemma insertByScore_insort:
  "finiteScore x \<Longrightarrow> \<forall>y\<in>set ys. finiteScore y
     \<Longrightarrow> insertByScore x ys = insort_key scoreKey x ys"
  by (induction ys) (auto simp: finiteScore_def scoreKey_def comparator_def js_sub_def)

lemma set_insertByScore: "set (insertByScore x ys) = insert x (set ys)"
  by (induction ys) auto

lemma set_sortByScore: "set (sortByScore xs) = set xs"
  by (induction xs) (auto simp: sortByScore_def set_insertByScore)

lemma sortByScore_sort_key:
  "\<forall>x\<in>set xs. finiteScore x \<Longrightarrow> sortByScore xs = sort_key scoreKey xs"
proof (induction xs)
  case Nil
  then show ?case by (simp add: sortByScore_def)
next
  case (Cons x xs)
  then have ih: "sortByScore xs = sort_key scoreKey xs" by simp
  have "sortByScore (x # xs) = insertByScore x (sortByScore xs)"
    by (simp add: sortByScore_def)
  also have "\<dots> = insort_key scoreKey x (sortByScore xs)"
    using Cons.prems by (intro insertByScore_insort) (simp_all add: set_sortByScore)
  finally show ?case by (simp add: ih)
qed

lemma calculateDistanceScore_finite:
  "0 \<le> d \<Longrightarrow> \<exists>r. calculateDistanceScore (Finite d) m = Finite r"
  by (auto simp: calculateDistanceScore_def js_div_def js_sub_def)

lemma addPoints_Finite:
  "addPoints b c (Finite x) = Finite (x + (if b then c else 0))"
  by (simp add: addPoints_def)

lemma addPoints_other:
  "addPoints b c PosInfinity = PosInfinity"
  "addPoints b c NegInfinity = NegInfinity"
  "addPoints b c NaN = NaN"
  by (simp_all add: addPoints_def)

lemma calculateCapacityScore_finite:
  assumes "0 < availableBeds (capacity h)"
  shows "\<exists>r. calculateCapacityScore h = Finite r"
proof (cases "totalBeds (capacity h) = 0")
  case True
  then have "js_scale (js_div (availableBeds (capacity h)) (totalBeds (capacity h))) 30 = PosInfinity"
    using assms by (simp add: js_div_def)
  then show ?thesis
    by (simp add: calculateCapacityScore_def Let_def addPoints_other)
next
  case False
  then have "js_scale (js_div (availableBeds (capacity h)) (totalBeds (capacity h))) 30
     = Finite (availableBeds (capacity h) / totalBeds (capacity h) * 30)"
    by (simp add: js_div_def)
  then show ?thesis
    by (simp add: calculateCapacityScore_def Let_def addPoints_Finite)
qed

lemma scoreHospital_distance:
  "sh_distance (scoreHospital L lon lat ty sev m h) = hospitalDistance L lon lat h"
  by (simp add: scoreHospital_def Let_def)

lemma scoreHospital_integer:
  assumes "0 < availableBeds (capacity h)" "hospitalDistance L lon lat h = Finite r" "0 \<le> r"
  shows "\<exists>k::int. sh_score (scoreHospital L lon lat ty sev m h) = Finite (of_int k)"
proof -
  obtain d where d: "calculateDistanceScore (Finite r) m = Finite d"
    using calculateDistanceScore_finite [OF assms(3)] by blast
  obtain c where c: "calculateCapacityScore h = Finite c"
    using calculateCapacityScore_finite [OF assms(1)] by blast
  show ?thesis
    by (simp add: scoreHospital_def Let_def assms(2) d c)
qed

lemma sortByScore_sorted:
  assumes "\<forall>x\<in>set xs. finiteScore x"
  shows "sorted_wrt (\<lambda>a b. js_ge (sh_score a) (sh_score b)) (sortByScore xs)"
proof -
  have "sorted (map scoreKey (sort_key scoreKey xs))"
    by (rule sorted_sort_key)
  then have "sorted_wrt (\<lambda>a b. scoreKey a \<le> scoreKey b) (sortByScore xs)"
    using assms by (simp add: sortByScore_sort_key sorted_map)
  moreover have "js_ge (sh_score a) (sh_score b)"
    if "a \<in> set (sortByScore xs)" "b \<in> set (sortByScore xs)" "scoreKey a \<le> scoreKey b" for a b
  proof -
    from that assms obtain ra rb where "sh_score a = Finite ra" "sh_score b = Finite rb"
      unfolding set_sortByScore finiteScore_def by blast
    then show ?thesis using that(3) by (simp add: scoreKey_def)
  qed
  ultimately show ?thesis
    by (rule sorted_wrt_mono_rel [rotated])
qed

lemma sortByScore_mset:
  "\<forall>x\<in>set xs. finiteScore x \<Longrightarrow> mset (sortByScore xs) = mset xs"
  by (simp add: sortByScore_sort_key)

lemma sortByScore_stable:
  assumes "\<forall>x\<in>set xs. finiteScore x"
  shows "filter (\<lambda>x. sh_score x = s) (sortByScore xs) = filter (\<lambda>x. sh_score x = s) xs"
proof (cases s)
  case (Finite r)
  have eq: "(sh_score x = s) = (scoreKey x = - r)" if "x \<in> set xs" for x
    using that assms Finite by (auto simp: finiteScore_def scoreKey_def)
  have "filter (\<lambda>x. sh_score x = s) (sortByScore xs) = filter (\<lambda>x. scoreKey x = - r) (sortByScore xs)"
    by (rule filter_cong) (simp_all add: eq set_sortByScore)
  also have "\<dots> = filter (\<lambda>x. scoreKey x = - r) xs"
    using assms by (simp add: sortByScore_sort_key sort_key_stable)
  also have "\<dots> = filter (\<lambda>x. sh_score x = s) xs"
    by (rule filter_cong) (simp_all add: eq)
  finally show ?thesis .
next
  case PosInfinity
  have "filter (\<lambda>x. sh_score x = s) ys = []" if "set ys = set xs" for ys
    using that assms PosInfinity by (auto simp: filter_empty_conv finiteScore_def)
  then show ?thesis by (simp add: set_sortByScore)
next
  case NegInfinity
  have "filter (\<lambda>x. sh_score x = s) ys = []" if "set ys = set xs" for ys
    using that assms NegInfinity by (auto simp: filter_empty_conv finiteScore_def)
  then show ?thesis by (simp add: set_sortByScore)
next
  case NaN
  have "filter (\<lambda>x. sh_score x = s) ys = []" if "set ys = set xs" for ys
    using that assms NaN by (auto simp: filter_empty_conv finiteScore_def)
  then show ?thesis by (simp add: set_sortByScore)
qed

text \<open>
  A stable sort by a key, applied to a list that is in the order \<open>R\<close>, gives a
  list in the order of the key and, for equal keys, in the order \<open>R\<close>.
\<close>

lemma insort_key_then:
  fixes f :: "'a \<Rightarrow> real"
  assumes "sorted_wrt (\<lambda>a b. f a < f b \<or> (f a = f b \<and> R a b)) ys" "\<forall>y\<in>set ys. R x y"
  shows "sorted_wrt (\<lambda>a b. f a < f b \<or> (f a = f b \<and> R a b)) (insort_key f x ys)"
  using assms
proof (induction ys)
  case Nil
  then show ?case by simp
next
  case (Cons y ys)
  show ?case
  proof (cases "f x \<le> f y")
    case True
    have "f x < f z \<or> (f x = f z \<and> R x z)" if "z \<in> set (y # ys)" for z
    proof -
      have "f y \<le> f z" using that Cons.prems(1) by auto
      with True have "f x \<le> f z" by simp
      moreover have "R x z" using that Cons.prems(2) by auto
      ultimately show ?thesis by auto
    qed
    with True Cons.prems(1) show ?thesis by simp
  next
    case False
    have ih: "sorted_wrt (\<lambda>a b. f a < f b \<or> (f a = f b \<and> R a b)) (insort_key f x ys)"
      using Cons.prems by (intro Cons.IH) simp_all
    have "f y < f z \<or> (f y = f z \<and> R y z)" if "z \<in> set (insort_key f x ys)" for z
      using that False Cons.prems(1) by (auto simp: set_insort_key)
    with False ih show ?thesis by simp
  qed
qed

lemma sort_key_then:
  fixes f :: "'a \<Rightarrow> real"
  assumes "sorted_wrt R xs"
  shows "sorted_wrt (\<lambda>a b. f a < f b \<or> (f a = f b \<and> R a b)) (sort_key f xs)"
  using assms
proof (induction xs)
  case Nil
  then show ?case by simp
next
  case (Cons x xs)
  have "sorted_wrt (\<lambda>a b. f a < f b \<or> (f a = f b \<and> R a b)) (insort_key f x (sort_key f xs))"
    using Cons by (intro insort_key_then) simp_all
  then show ?case by simp
qed

lemma sortByScore_then:
  assumes "\<forall>x\<in>set xs. finiteScore x" "sorted_wrt R xs"
  shows "sorted_wrt (\<lambda>a b. js_positive (js_sub (sh_score a) (sh_score b))
                            \<or> (sh_score a = sh_score b \<and> R a b)) (sortByScore xs)"
proof -
  have "sorted_wrt (\<lambda>a b. scoreKey a < scoreKey b \<or> (scoreKey a = scoreKey b \<and> R a b))
          (sortByScore xs)"
    using assms by (simp add: sortByScore_sort_key sort_key_then)
  moreover have "js_positive (js_sub (sh_score a) (sh_score b)) \<or> (sh_score a = sh_score b \<and> R a b)"
    if "a \<in> set (sortByScore xs)" "b \<in> set (sortByScore xs)"
       "scoreKey a < scoreKey b \<or> (scoreKey a = scoreKey b \<and> R a b)" for a b
  proof -
    from that assms(1) obtain ra rb where "sh_score a = Finite ra" "sh_score b = Finite rb"
      unfolding set_sortByScore finiteScore_def by blast
    then show ?thesis using that(3) by (auto simp: scoreKey_def js_sub_def)
  qed
  ultimately show ?thesis
    by (rule sorted_wrt_mono_rel [rotated])
qed

lemma candidates_beds: "h \<in> set (candidates nearby) \<Longrightarrow> 0 < availableBeds (capacity h)"
  by (auto simp: candidates_def dest: in_set_takeD)

lemma candidates_sorted: "sorted_wrt R nearby \<Longrightarrow> sorted_wrt R (candidates nearby)"
  unfolding candidates_def by (intro sorted_wrt_take sorted_wrt_filter)

lemma scored_candidates_finite:
  assumes "\<forall>h\<in>set (candidates nearby). \<exists>r. hospitalDistance L lon lat h = Finite r \<and> 0 \<le> r"
  shows "\<forall>x\<in>set (map (scoreHospital L lon lat ty sev m) (candidates nearby)). finiteScore x"
proof
  fix x assume "x \<in> set (map (scoreHospital L lon lat ty sev m) (candidates nearby))"
  then obtain h where h: "h \<in> set (candidates nearby)" "x = scoreHospital L lon lat ty sev m h"
    by auto
  from h(1) assms obtain r where "hospitalDistance L lon lat h = Finite r" "0 \<le> r" by blast
  from scoreHospital_integer [OF candidates_beds [OF h(1)] this]
  show "finiteScore x" unfolding h(2) finiteScore_def by blast
qed

lemma findNearbyHospitals_sort:
  "findNearbyHospitals L nearby lon lat ty sev m
     = sortByScore (map (scoreHospital L lon lat ty sev m) (candidates nearby))"
  by (simp add: findNearbyHospitals_def Let_def sortByScore_def)

lemma metropolitan_distance:
  "hospitalDistance exampleMath (-73.9857) 40.7484 metropolitanGeneral = Finite 0"
  "hospitalDistance exampleMath (-73.9857) 40.7484 annexHospital = Finite 0"
  by (simp_all add: hospitalDistance_def annexHospital_def metropolitanGeneral_def
        calculateDistance_same conforming_exampleMath)

lemma annex_score:
  "scoreHospital exampleMath (-73.9857) 40.7484 Cardiac ''critical'' 50000 annexHospital
     = \<lparr>sh_hospital = annexHospital, sh_distance = Finite 0, sh_score = Finite 92,
        sh_emergencyScore = 100, sh_distanceScore = Finite 100,
        sh_capacityScore = Finite (727 / 10)\<rparr>"
  unfolding scoreHospital_def Let_def metropolitan_distance
  by (simp add: annexHospital_def metropolitanGeneral_def
        calculateEmergencyScore_def calculateDistanceScore_def
        calculateCapacityScore_def addPoints_def js_div_def js_sub_def)

lemma metropolitan_score:
  "scoreHospital exampleMath (-73.9857) 40.7484 Cardiac ''critical'' 50000 metropolitanGeneral
     = \<lparr>sh_hospital = metropolitanGeneral, sh_distance = Finite 0, sh_score = Finite 92,
        sh_emergencyScore = 100, sh_distanceScore = Finite 100,
        sh_capacityScore = Finite (727 / 10)\<rparr>"
  unfolding scoreHospital_def Let_def metropolitan_distance
  by (simp add: metropolitanGeneral_def
        calculateEmergencyScore_def calculateDistanceScore_def
        calculateCapacityScore_def addPoints_def js_div_def js_sub_def)

lemma sample_candidates: "candidates [annexHospital, metropolitanGeneral] = [annexHospital, metropolitanGeneral]"
  by (simp add: candidates_def annexHospital_def metropolitanGeneral_def)

lemma sample_search:
  "findNearbyHospitals exampleMath [annexHospital, metropolitanGeneral] (-73.9857) 40.7484 Cardiac
     ''critical'' 50000
     = [\<lparr>sh_hospital = annexHospital, sh_distance = Finite 0, sh_score = Finite 92,
         sh_emergencyScore = 100, sh_distanceScore = Finite 100,
         sh_capacityScore = Finite (727 / 10)\<rparr>,
        \<lparr>sh_hospital = metropolitanGeneral, sh_distance = Finite 0, sh_score = Finite 92,
         sh_emergencyScore = 100, sh_distanceScore = Finite 100,
         sh_capacityScore = Finite (727 / 10)\<rparr>]"
  unfolding findNearbyHospitals_sort sample_candidates list.map annex_score metropolitan_score
  by (simp add: sortByScore_def comparator_def js_sub_def)

lemma equipmentCount_points:
  "5 * real (equipmentCount h) =
     (if ctScan (equipment h) then 5 else 0) + (if mriMachine (equipment h) then 5 else 0)
     + (if 0 < ventilators (equipment h) then 5 else 0)
     + (if 0 < defibrillators (equipment h) then 5 else 0)
     + (if bloodBank (equipment h) then 5 else 0)"
  by (simp add: equipmentCount_def)

subsection \<open>C7: estimated time of arrival\<close>




subsection \<open>C10: releasing an ambulance unit\<close>

text \<open>
  C10. Releasing is idempotent and total on unit ids. Releasing a known unit sets
  the status of the unit that \<open>find\<close> returns for the id to \<open>available\<close> and clears
  its current emergency, its reservation and its reservation time, leaving every
  unit with another id as it was; releasing a second time changes nothing;
  releasing an id that no unit has returns the list unchanged. The operation has
  no error result.
\<close>

theorem C10_release_idempotent_total:
  "(\<forall>u. findUnit units a = Some u \<longrightarrow>
        (\<exists>u'. findUnit (releaseAmbulance units a) a = Some u'
            \<and> unit_status u' = ''available''
            \<and> unit_currentEmergency u' = None
            \<and> unit_reservedFor u' = None
            \<and> unit_reservationTime u' = None
            \<and> u' = released u))
   \<and> (\<forall>b. b \<noteq> a \<longrightarrow> findUnit (releaseAmbulance units a) b = findUnit units b)
   \<and> length (releaseAmbulance units a) = length units
   \<and> releaseAmbulance (releaseAmbulance units a) a = releaseAmbulance units a
   \<and> (findUnit units a = None \<longrightarrow> releaseAmbulance units a = units)"
proof (intro conjI allI impI)
  fix u assume "findUnit units a = Some u"
  then have "findUnit (releaseAmbulance units a) a = Some (released u)"
    by (simp add: findUnit_def releaseAmbulance_def find_updateFirst released_id)
  then show "\<exists>u'. findUnit (releaseAmbulance units a) a = Some u'
            \<and> unit_status u' = ''available''
            \<and> unit_currentEmergency u' = None
            \<and> unit_reservedFor u' = None
            \<and> unit_reservationTime u' = None
            \<and> u' = released u"
    by (simp add: released_def)
next
  fix b assume "b \<noteq> a"
  then show "findUnit (releaseAmbulance units a) b = findUnit units b"
    by (simp add: findUnit_def releaseAmbulance_def find_updateFirst_other released_id)
next
  show "length (releaseAmbulance units a) = length units"
    unfolding releaseAmbulance_def by (induction units) auto
next
  show "releaseAmbulance (releaseAmbulance units a) a = releaseAmbulance units a"
    by (simp add: releaseAmbulance_def updateFirst_idem released_id released_idem)
next
  assume "findUnit units a = None"
  then show "releaseAmbulance units a = units"
    by (simp add: findUnit_def releaseAmbulance_def updateFirst_absent)
qed

theorem C10_release_witness:
  "findUnit dispatchedUnits ''AMB001'' \<noteq> None
   \<and> map_option unit_status (findUnit dispatchedUnits ''AMB001'') = Some ''dispatched''
   \<and> map_option unit_status (findUnit (releaseAmbulance dispatchedUnits ''AMB001'') ''AMB001'') = Some ''available''
   \<and> ''AMB002'' \<noteq> ''AMB001''
   \<and> findUnit (releaseAmbulance dispatchedUnits ''AMB001'') ''AMB002'' = findUnit dispatchedUnits ''AMB002''
   \<and> releaseAmbulance dispatchedUnits ''AMB001'' = initialUnits
   \<and> findUnit dispatchedUnits ''AMB999'' = None
   \<and> releaseAmbulance dispatchedUnits ''AMB999'' = dispatchedUnits"
  using C10_release_idempotent_total [of dispatchedUnits "''AMB001''"]
        C10_release_idempotent_total [of dispatchedUnits "''AMB999''"]
  by (simp add: dispatchedUnits_def initialUnits_def dispatchAmbulance_def findUnit_def
                releaseAmbulance_def released_def)

subsection \<open>C3: reserving a bed\<close>




subsection \<open>C4: the capacity invariant\<close>

text \<open>
  C4. Every hospital document that bed reservation, capacity update or save
  writes satisfies \<open>0 \<le> availableBeds \<le> totalBeds\<close>,
  \<open>0 \<le> availableIcuBeds \<le> icuBeds\<close> and
  \<open>0 \<le> availableEmergencyRooms \<le> emergencyRooms\<close>, whatever document and
  whatever arguments the operation started from.
\<close>

theorem C4_capacity_invariant: "written h \<Longrightarrow> capacityInvariant h"
proof (induction rule: written.induct)
  case (by_save h now h')
  then show ?case by (rule save_invariant)
next
  case (by_reserveBed store hospitalId emergencyId emergencyType now r store' h')
  then show ?case
    by (auto simp: reserveBed_def split: option.splits if_splits sum.splits dest: save_invariant)
next
  case (by_updateCapacity store hospitalId d now h' store')
  then show ?case
    by (auto simp: updateHospitalCapacity_def updateCapacity_def
             split: option.splits sum.splits dest: save_invariant)
qed

theorem C4_capacity_invariant_witness:
  "written (metropolitanGeneral\<lparr>updatedAt := 1000\<rparr>)
   \<and> capacityInvariant (metropolitanGeneral\<lparr>updatedAt := 1000\<rparr>)"
proof -
  have "save metropolitanGeneral 1000 = Inr (metropolitanGeneral\<lparr>updatedAt := 1000\<rparr>)"
    using metropolitan_valid metropolitan_invariant by (simp add: save_def preSave_fixed)
  then have w: "written (metropolitanGeneral\<lparr>updatedAt := 1000\<rparr>)"
    by (rule written.by_save)
  from w C4_capacity_invariant [OF w] show ?thesis by simp
qed

subsection \<open>C8: coordinates out of range\<close>

text \<open>
  C8 as stated: whenever a latitude is outside \<open>[-90, 90]\<close> or a longitude outside
  \<open>[-180, 180]\<close>, the distance calculation fails with a validation error instead
  of returning a number. It does not: for latitude 100 at both points the call
  returns the number 0.
\<close>

theorem C8_out_of_range_counterexample:
  "\<not> validCoordinates 100 0
   \<and> calculateDistance_outcome exampleMath 100 0 100 0 = Inr (Finite 0)
   \<and> calculateDistance_outcome exampleMath 100 0 100 0 \<noteq> Inl ValidationError"
  by (simp add: validCoordinates_def calculateDistance_outcome_def calculateDistance_same
        conforming_exampleMath)

text \<open>
  C8 amended. The distance calculation validates nothing and has no error
  outcome: for every input, in range or not, it returns a value of the number
  type, and for two equal points, in range or not, it returns 0. (The
  coordinate ranges are checked by the request validators of the routes and
  by the \<open>Hospital\<close> schema.)
\<close>

theorem C8_distance_never_fails:
  "(\<exists>v. calculateDistance_outcome L lat1 lon1 lat2 lon2 = Inr v)
   \<and> calculateDistance_outcome L lat1 lon1 lat2 lon2 \<noteq> Inl e
   \<and> (conforming L \<and> \<bar>lat1\<bar> \<le> 2 ^ 1023
        \<longrightarrow> calculateDistance_outcome L lat1 lon1 lat1 lon1 = Inr (Finite 0))"
  by (simp add: calculateDistance_outcome_def calculateDistance_same)

theorem C8_distance_never_fails_witness:
  "conforming exampleMath \<and> \<bar>- 95 :: real\<bar> \<le> 2 ^ 1023 \<and> \<not> validCoordinates (- 95) 200
   \<and> calculateDistance_outcome exampleMath (- 95) 200 (- 95) 200 = Inr (Finite 0)"
  using C8_distance_never_fails [of exampleMath "- 95" 200 "- 95" 200] conforming_exampleMath
  by (simp add: validCoordinates_def)

subsection \<open>C9: symmetry, sign and zero of the distance\<close>

text \<open>
  C9. For any two coordinate pairs the distance is symmetric, it is never
  negative, and it is zero when the two points are the same. The code computes
  the Haversine formula, for which this holds, and misses it where the two
  points are nearly antipodal. From latitude -82, longitude -180 to latitude
  82, longitude 0, both in range, the rounded haversine term is
  \<open>1 + 2\<^sup>-\<^sup>5\<^sup>2\<close>, its complement is negative, the square root of the complement is
  \<open>NaN\<close> and so is the result, which is not a distance: it is not at least 0.
  The evaluation is with a sine and a cosine that round correctly;
  \<open>near_antipodal_nan\<close> has it for every library that returns the same doubles
  at the three arguments. For two equal points the result is 0
  (\<open>calculateDistance_same\<close>).
\<close>

theorem C9_near_antipodal_distance:
  "validCoordinates (- 82) (- 180) \<and> validCoordinates 82 0
   \<and> calculateDistance exampleMath (- 82) (- 180) 82 0 = NaN
   \<and> \<not> js_ge (calculateDistance exampleMath (- 82) (- 180) 82 0) (Finite 0)"
proof -
  have "calculateDistance exampleMath (- 82) (- 180) 82 0 = NaN"
  proof (rule near_antipodal_nan)
    show "Math_sin exampleMath (Finite (6445416618514801 / 2 ^ 52))
            = Finite (4459770905381437 / 2 ^ 52)"
      unfolding exampleMath_def using fl_sin_half_dLat by simp
    show "Math_sin exampleMath (Finite (884279719003555 / 2 ^ 49)) = Finite 1"
      unfolding exampleMath_def using fl_sin_half_dLon by simp
    show "Math_cos exampleMath (Finite (6445416618514801 / 2 ^ 52))
            = Finite (2507119702494989 / 2 ^ 54)"
      unfolding exampleMath_def using fl_cos_lat by simp
    show "Math_cos exampleMath (Finite (- (6445416618514801 / 2 ^ 52)))
            = Finite (2507119702494989 / 2 ^ 54)"
      unfolding exampleMath_def using fl_cos_lat by simp
    show "Math_atan2 exampleMath y NaN = NaN" for y
      by (rule exampleMath_atan2_NaN)
  qed
  then show ?thesis by (simp add: validCoordinates_def)
qed

subsection \<open>C1: transitions of the status\<close>

text \<open>
  C1 as stated: from a terminal status, and for a target that is neither
  \<open>cancelled\<close> nor the successor of the current status, the transition fails
  and leaves status and timeline as they were. It does not leave them: the
  update of a completed emergency to \<open>processing\<close> and of a submitted one
  straight to \<open>transported\<close> is written to the collection, with the new status
  and one more timeline entry.
\<close>

theorem C1_transition_counterexample:
  "\<not> spec_accepts Completed Processing
   \<and> snd (updateStatus (sampleEmergency\<lparr>response_status := Completed\<rparr>) Processing ''system'' [] 2000)
       = Some (sampleEmergency
                \<lparr>response_status := Processing,
                 timeline := timeline sampleEmergency @
                   [\<lparr>tl_timestamp = 2000, tl_event = ''Status changed to processing'',
                     tl_details = [], tl_updatedBy = ''system'', tl_location = None\<rparr>],
                 emergency_updatedAt := 2000\<rparr>)
   \<and> \<not> spec_accepts Submitted Transported
   \<and> snd (updateStatus sampleEmergency Transported ''system'' [] 2000)
       = Some (sampleEmergency
                \<lparr>response_status := Transported,
                 transportTime := Some 2000,
                 timeline := timeline sampleEmergency @
                   [\<lparr>tl_timestamp = 2000, tl_event = ''Status changed to transported'',
                     tl_details = [], tl_updatedBy = ''system'', tl_location = None\<rparr>],
                 emergency_updatedAt := 2000\<rparr>)"
  by (simp add: spec_accepts_def spec_terminal_def updateStatus_def Let_def timelinePush_def
                saveEmergency_def validateEmergency_def sampleEmergency_def ambulanceStatusEnum_def)

text \<open>
  C1 amended. The status update checks no transition: for every emergency that
  the collection holds (its ambulance status passes the schema), terminal or
  not, and for every target status, in order or not, the update is written:
  the stored document has the target status and exactly one more timeline
  entry, \<open>Status changed to <target>\<close> with the given actor and details, and the
  status route without a location leaves that document in the collection. What
  the call returns to its caller is the same for every transition, a rejection
  by the second \<open>save()\<close>, and is no part of the amended claim.
\<close>

theorem C1_every_transition_written:
  assumes "validateEmergency e"
  shows "\<exists>e'. snd (updateStatus e target updatedBy details now) = Some e'
           \<and> response_status e' = target
           \<and> timeline e' = timeline e @
                [\<lparr>tl_timestamp = now, tl_event = ''Status changed to '' @ statusName target,
                  tl_details = details, tl_updatedBy = updatedBy, tl_location = None\<rparr>]
           \<and> (sys_emergencies sys eid = Some e \<longrightarrow>
                snd (patchStatus sys eid target (Some updatedBy) (Some details) None now)
                  = sys\<lparr>sys_emergencies := (sys_emergencies sys)(eid \<mapsto> e')\<rparr>)"
proof -
  let ?e' = "(stampMilestone target now
                  (e\<lparr>response_status := target,
                     timeline := timeline e @
                       [\<lparr>tl_timestamp = now, tl_event = ''Status changed to '' @ statusName target,
                         tl_details = details, tl_updatedBy = updatedBy, tl_location = None\<rparr>]\<rparr>))
                \<lparr>emergency_updatedAt := now\<rparr>"
  have u: "updateStatus e target updatedBy details now = (Inl ParallelSaveError, Some ?e')"
    using assms by (rule updateStatus_valid)
  have "response_status ?e' = target"
    by (simp add: stampMilestone_fields)
  moreover have "timeline ?e' = timeline e @
                [\<lparr>tl_timestamp = now, tl_event = ''Status changed to '' @ statusName target,
                  tl_details = details, tl_updatedBy = updatedBy, tl_location = None\<rparr>]"
    by (simp add: stampMilestone_fields)
  moreover have "sys_emergencies sys eid = Some e \<longrightarrow>
                snd (patchStatus sys eid target (Some updatedBy) (Some details) None now)
                  = sys\<lparr>sys_emergencies := (sys_emergencies sys)(eid \<mapsto> ?e')\<rparr>"
    using u by (simp add: patchStatus_def)
  moreover have "snd (updateStatus e target updatedBy details now) = Some ?e'"
    using u by simp
  ultimately show ?thesis by blast
qed

theorem C1_every_transition_written_witness:
  "validateEmergency (sampleEmergency\<lparr>response_status := Cancelled\<rparr>)
   \<and> sys_emergencies (sampleSystem\<lparr>sys_emergencies := [''EMG-1A2B3C4D'' \<mapsto> sampleEmergency\<lparr>response_status := Cancelled\<rparr>]\<rparr>)
        ''EMG-1A2B3C4D'' = Some (sampleEmergency\<lparr>response_status := Cancelled\<rparr>)
   \<and> map_option response_status
        (sys_emergencies (snd (patchStatus (sampleSystem\<lparr>sys_emergencies := [''EMG-1A2B3C4D'' \<mapsto> sampleEmergency\<lparr>response_status := Cancelled\<rparr>]\<rparr>)
             ''EMG-1A2B3C4D'' EnRoute (Some ''dispatcher'') (Some ''reopened'') None 2000)) ''EMG-1A2B3C4D'')
       = Some EnRoute"
proof -
  have v: "validateEmergency (sampleEmergency\<lparr>response_status := Cancelled\<rparr>)"
    by (simp add: validateEmergency_def sampleEmergency_def ambulanceStatusEnum_def)
  show ?thesis
    using v C1_every_transition_written [OF v, of EnRoute "''dispatcher''" "''reopened''" 2000
        "sampleSystem\<lparr>sys_emergencies := [''EMG-1A2B3C4D'' \<mapsto> sampleEmergency\<lparr>response_status := Cancelled\<rparr>]\<rparr>"
        "''EMG-1A2B3C4D''"]
    by auto
qed

subsection \<open>C2: cancelling\<close>

text \<open>
  C2 as stated: cancelling an emergency that holds a bed reservation and a
  dispatched unit sets it to \<open>cancelled\<close>, gives the bed back and makes the unit
  available again. The first part holds, the rest does not: after the bed of
  \<open>H1\<close> is reserved (45 to 44 available) and \<open>AMB001\<close> dispatched, the cancel route
  leaves the emergency cancelled, but \<open>H1\<close> still has 44 available beds and
  \<open>AMB001\<close> is still dispatched.
\<close>

theorem C2_cancel_counterexample:
  "reserveBed (sys_hospitals sampleSystem) ''H1'' ''EMG-1A2B3C4D'' Cardiac 1000
      = Inr (\<lparr>res_success = True, res_hospitalName = ''Metropolitan General Hospital'',
               res_reservedBedType = ''general'', res_reservationTime = 1000\<rparr>,
             sys_hospitals reservedSystem)
   \<and> dispatchAmbulance (sys_units sampleSystem) ''AMB001'' ''EMG-1A2B3C4D'' (40.7484, -73.9857)
        ''critical'' Cardiac 1000 = sys_units reservedSystem
   \<and> map_option response_status
        (sys_emergencies (snd (cancelEmergency reservedSystem ''EMG-1A2B3C4D'' None None 2000))
           ''EMG-1A2B3C4D'') = Some Cancelled
   \<and> map_option (\<lambda>h. availableBeds (capacity h)) (sys_hospitals sampleSystem ''H1'') = Some 45
   \<and> map_option (\<lambda>h. availableBeds (capacity h))
        (sys_hospitals (snd (cancelEmergency reservedSystem ''EMG-1A2B3C4D'' None None 2000)) ''H1'')
       = Some 44
   \<and> map_option unit_status (findUnit (sys_units sampleSystem) ''AMB001'') = Some ''available''
   \<and> map_option unit_status
        (findUnit (sys_units (snd (cancelEmergency reservedSystem ''EMG-1A2B3C4D'' None None 2000)))
           ''AMB001'') = Some ''dispatched''"
proof -
  have r: "reserveBed [''H1'' \<mapsto> metropolitanGeneral] ''H1'' ''EMG-1A2B3C4D'' Cardiac 1000
      = Inr (\<lparr>res_success = True, res_hospitalName = ''Metropolitan General Hospital'',
               res_reservedBedType = ''general'', res_reservationTime = 1000\<rparr>,
             [''H1'' \<mapsto> metropolitanGeneral
             \<lparr>capacity := (capacity metropolitanGeneral)\<lparr>availableBeds := 44, availableIcuBeds := 7\<rparr>,
              updatedAt := 1000\<rparr>])"
    using metropolitan_valid
    by (simp add: reserveBed_def save_def reserveIn_def Let_def preSave_def validateHospital_def
          capacityValid_def metropolitanGeneral_def)
  have c: "snd (cancelEmergency reservedSystem ''EMG-1A2B3C4D'' None None 2000)
      = reservedSystem\<lparr>sys_emergencies := [''EMG-1A2B3C4D'' \<mapsto>
            sampleEmergency\<lparr>response_status := Cancelled,
               timeline := timeline sampleEmergency @
                   [\<lparr>tl_timestamp = 2000, tl_event = ''Status changed to cancelled'',
                     tl_details = ''User cancelled'', tl_updatedBy = ''patient'', tl_location = None\<rparr>],
                 emergency_updatedAt := 2000\<rparr>]\<rparr>"
    by (simp add: cancelEmergency_def reservedSystem_def sampleSystem_def updateStatus_def Let_def
          timelinePush_def saveEmergency_def validateEmergency_def sampleEmergency_def
          ambulanceStatusEnum_def)
  show ?thesis
    unfolding c using r
    by (simp add: reservedSystem_def sampleSystem_def dispatchedUnits_def metropolitanGeneral_def
          findUnit_def initialUnits_def dispatchAmbulance_def)
qed

text \<open>
  C2 amended. The cancel route changes the emergency only. For an emergency
  that is not completed or cancelled it leaves the stored document with the
  status \<open>cancelled\<close> and one more timeline entry; for a completed or cancelled
  one it answers 400 and changes nothing. In every case the hospitals, with
  their bed counts, and the ambulance units are exactly as before the call:
  nothing is released. What the route answers after the update, which the
  rejection by the second \<open>save()\<close> decides, is no part of the amended claim.
\<close>

theorem C2_cancel_releases_nothing:
  "sys_hospitals (snd (cancelEmergency sys eid reasonOpt cancelledByOpt now)) = sys_hospitals sys
   \<and> sys_units (snd (cancelEmergency sys eid reasonOpt cancelledByOpt now)) = sys_units sys
   \<and> (\<forall>e. sys_emergencies sys eid = Some e \<and> response_status e \<in> {Completed, Cancelled}
          \<longrightarrow> cancelEmergency sys eid reasonOpt cancelledByOpt now = (Status400, sys))
   \<and> (\<forall>e. sys_emergencies sys eid = Some e \<and> response_status e \<notin> {Completed, Cancelled}
            \<and> validateEmergency e
          \<longrightarrow> (\<exists>e'. snd (cancelEmergency sys eid reasonOpt cancelledByOpt now)
                       = sys\<lparr>sys_emergencies := (sys_emergencies sys)(eid \<mapsto> e')\<rparr>
                  \<and> response_status e' = Cancelled
                  \<and> timeline e' = timeline e @
                      [\<lparr>tl_timestamp = now, tl_event = ''Status changed to cancelled'',
                        tl_details = (case reasonOpt of None \<Rightarrow> ''User cancelled'' | Some r \<Rightarrow> r),
                        tl_updatedBy = (case cancelledByOpt of None \<Rightarrow> ''patient'' | Some c \<Rightarrow> c),
                        tl_location = None\<rparr>]))"
proof (intro conjI allI impI)
  show "sys_hospitals (snd (cancelEmergency sys eid reasonOpt cancelledByOpt now)) = sys_hospitals sys"
    by (simp add: cancelEmergency_def Let_def split: option.splits sum.splits prod.splits)
  show "sys_units (snd (cancelEmergency sys eid reasonOpt cancelledByOpt now)) = sys_units sys"
    by (simp add: cancelEmergency_def Let_def split: option.splits sum.splits prod.splits)
next
  fix e assume "sys_emergencies sys eid = Some e \<and> response_status e \<in> {Completed, Cancelled}"
  then show "cancelEmergency sys eid reasonOpt cancelledByOpt now = (Status400, sys)"
    by (auto simp: cancelEmergency_def Let_def)
next
  fix e
  assume a: "sys_emergencies sys eid = Some e \<and> response_status e \<notin> {Completed, Cancelled}
            \<and> validateEmergency e"
  let ?r = "case reasonOpt of None \<Rightarrow> ''User cancelled'' | Some r \<Rightarrow> r"
  let ?c = "case cancelledByOpt of None \<Rightarrow> ''patient'' | Some c \<Rightarrow> c"
  let ?e' = "(e\<lparr>response_status := Cancelled,
                     timeline := timeline e @
                       [\<lparr>tl_timestamp = now, tl_event = ''Status changed to cancelled'',
                         tl_details = ?r, tl_updatedBy = ?c, tl_location = None\<rparr>]\<rparr>)
                \<lparr>emergency_updatedAt := now\<rparr>"
  have u: "updateStatus e Cancelled ?c ?r now = (Inl ParallelSaveError, Some ?e')"
    using a updateStatus_valid [of e Cancelled ?c ?r now] by simp
  have "snd (cancelEmergency sys eid reasonOpt cancelledByOpt now)
          = sys\<lparr>sys_emergencies := (sys_emergencies sys)(eid \<mapsto> ?e')\<rparr>"
    using a u by (simp add: cancelEmergency_def Let_def)
  then show "\<exists>e'. snd (cancelEmergency sys eid reasonOpt cancelledByOpt now)
                       = sys\<lparr>sys_emergencies := (sys_emergencies sys)(eid \<mapsto> e')\<rparr>
                  \<and> response_status e' = Cancelled
                  \<and> timeline e' = timeline e @
                      [\<lparr>tl_timestamp = now, tl_event = ''Status changed to cancelled'',
                        tl_details = ?r, tl_updatedBy = ?c, tl_location = None\<rparr>]"
    by (intro exI [of _ ?e']) simp
qed

theorem C2_cancel_releases_nothing_witness:
  "sys_emergencies reservedSystem ''EMG-1A2B3C4D'' = Some sampleEmergency
   \<and> response_status sampleEmergency \<notin> {Completed, Cancelled}
   \<and> validateEmergency sampleEmergency
   \<and> sys_hospitals (snd (cancelEmergency reservedSystem ''EMG-1A2B3C4D'' None None 2000))
       = sys_hospitals reservedSystem
   \<and> sys_units (snd (cancelEmergency reservedSystem ''EMG-1A2B3C4D'' None None 2000))
       = sys_units reservedSystem
   \<and> sys_emergencies completedSystem ''EMG-1A2B3C4D''
       = Some (sampleEmergency\<lparr>response_status := Completed\<rparr>)
   \<and> response_status (sampleEmergency\<lparr>response_status := Completed\<rparr>) \<in> {Completed, Cancelled}
   \<and> cancelEmergency completedSystem ''EMG-1A2B3C4D'' None None 2000 = (Status400, completedSystem)"
proof -
  have 1: "sys_emergencies reservedSystem ''EMG-1A2B3C4D'' = Some sampleEmergency"
    by (simp add: reservedSystem_def sampleSystem_def)
  have 2: "response_status sampleEmergency \<notin> {Completed, Cancelled}"
    by (simp add: sampleEmergency_def)
  have 3: "sys_emergencies completedSystem ''EMG-1A2B3C4D''
             = Some (sampleEmergency\<lparr>response_status := Completed\<rparr>)"
    by (simp add: completedSystem_def)
  show ?thesis
    using 1 2 3 sampleEmergency_valid
      C2_cancel_releases_nothing [of reservedSystem "''EMG-1A2B3C4D''" None None 2000]
      C2_cancel_releases_nothing [of completedSystem "''EMG-1A2B3C4D''" None None 2000]
    by auto
qed

subsection \<open>C5: the order of the search result\<close>

text \<open>
  C5 as stated: for every list of candidate hospitals the result is in
  descending order of score, ties in ascending order of distance, remaining
  ties in descending order of overall rating. It is not: two hospitals at the
  point of the search with score 92 and distance 0, given with the lower rated
  one first, are returned with the lower rated one first.
\<close>

theorem C5_ranking_counterexample:
  "findNearbyHospitals exampleMath [annexHospital, metropolitanGeneral] (-73.9857) 40.7484 Cardiac
     ''critical'' 50000
     = [\<lparr>sh_hospital = annexHospital, sh_distance = Finite 0, sh_score = Finite 92,
         sh_emergencyScore = 100, sh_distanceScore = Finite 100,
         sh_capacityScore = Finite (727 / 10)\<rparr>,
        \<lparr>sh_hospital = metropolitanGeneral, sh_distance = Finite 0, sh_score = Finite 92,
         sh_emergencyScore = 100, sh_distanceScore = Finite 100,
         sh_capacityScore = Finite (727 / 10)\<rparr>]
   \<and> overall (rating annexHospital) < overall (rating metropolitanGeneral)
   \<and> \<not> sorted_wrt spec_ranked
        (findNearbyHospitals exampleMath [annexHospital, metropolitanGeneral] (-73.9857) 40.7484
           Cardiac ''critical'' 50000)"
  unfolding sample_search
  by (simp add: spec_ranked_def js_sub_def js_less_def annexHospital_def metropolitanGeneral_def)

text \<open>
  C5 amended. For every list of candidate hospitals whose computed distances
  are numbers, none negative, the result of \<open>findNearbyHospitals\<close> is in
  descending order of score, and hospitals of equal score keep the order in
  which the query yielded them. The query yields the hospitals nearest first,
  and when they come in ascending order of the computed distance, the result
  is in descending order of score with ties in ascending order of distance.
  No tie is broken by the overall rating. The result holds the scored
  candidates, each once, that is the first 20 active hospitals with an
  available bed, and every score is an integer.
\<close>

theorem C5_sorted_by_score_then_distance:
  assumes "\<forall>h\<in>set (candidates nearby).
             \<exists>r. hospitalDistance L longitude latitude h = Finite r \<and> 0 \<le> r"
  shows "sorted_wrt (\<lambda>a b. js_ge (sh_score a) (sh_score b))
           (findNearbyHospitals L nearby longitude latitude ty sev maxDistance)
       \<and> mset (findNearbyHospitals L nearby longitude latitude ty sev maxDistance)
           = mset (map (scoreHospital L longitude latitude ty sev maxDistance) (candidates nearby))
       \<and> (\<forall>s. filter (\<lambda>x. sh_score x = s)
                 (findNearbyHospitals L nearby longitude latitude ty sev maxDistance)
              = filter (\<lambda>x. sh_score x = s)
                  (map (scoreHospital L longitude latitude ty sev maxDistance) (candidates nearby)))
       \<and> (sorted_wrt (\<lambda>g h. js_ge (hospitalDistance L longitude latitude h)
                                  (hospitalDistance L longitude latitude g)) nearby
            \<longrightarrow> sorted_wrt (\<lambda>a b. js_positive (js_sub (sh_score a) (sh_score b))
                                   \<or> (sh_score a = sh_score b
                                       \<and> js_ge (sh_distance b) (sh_distance a)))
                  (findNearbyHospitals L nearby longitude latitude ty sev maxDistance))
       \<and> (\<forall>x\<in>set (findNearbyHospitals L nearby longitude latitude ty sev maxDistance).
             \<exists>k::int. sh_score x = Finite (of_int k))
       \<and> length (findNearbyHospitals L nearby longitude latitude ty sev maxDistance) \<le> 20"
proof (intro conjI allI ballI impI)
  let ?f = "scoreHospital L longitude latitude ty sev maxDistance"
  let ?cs = "map ?f (candidates nearby)"
  let ?res = "findNearbyHospitals L nearby longitude latitude ty sev maxDistance"
  have fin: "\<forall>x\<in>set ?cs. finiteScore x"
    using assms by (rule scored_candidates_finite)
  show "sorted_wrt (\<lambda>a b. js_ge (sh_score a) (sh_score b)) ?res"
    unfolding findNearbyHospitals_sort using fin by (rule sortByScore_sorted)
  show m: "mset ?res = mset ?cs"
    unfolding findNearbyHospitals_sort using fin by (rule sortByScore_mset)
  show "filter (\<lambda>x. sh_score x = s) ?res = filter (\<lambda>x. sh_score x = s) ?cs" for s
    unfolding findNearbyHospitals_sort using fin by (rule sortByScore_stable)
  show "\<exists>k::int. sh_score x = Finite (of_int k)" if "x \<in> set ?res" for x
  proof -
    from that obtain h where h: "h \<in> set (candidates nearby)" "x = ?f h"
      by (auto simp: findNearbyHospitals_sort set_sortByScore)
    from h(1) assms obtain r where "hospitalDistance L longitude latitude h = Finite r" "0 \<le> r"
      by blast
    from scoreHospital_integer [OF candidates_beds [OF h(1)] this]
    show ?thesis unfolding h(2) .
  qed
  have "length ?res = length ?cs"
    using m by (metis size_mset)
  then show "length ?res \<le> 20"
    by (simp add: candidates_def)
  assume "sorted_wrt (\<lambda>g h. js_ge (hospitalDistance L longitude latitude h)
                                  (hospitalDistance L longitude latitude g)) nearby"
  then have "sorted_wrt (\<lambda>g h. js_ge (hospitalDistance L longitude latitude h)
                                  (hospitalDistance L longitude latitude g)) (candidates nearby)"
    by (rule candidates_sorted)
  then have "sorted_wrt (\<lambda>a b. js_ge (sh_distance b) (sh_distance a)) ?cs"
    by (simp add: sorted_wrt_map scoreHospital_distance)
  with fin show "sorted_wrt (\<lambda>a b. js_positive (js_sub (sh_score a) (sh_score b))
                                   \<or> (sh_score a = sh_score b
                                       \<and> js_ge (sh_distance b) (sh_distance a))) ?res"
    unfolding findNearbyHospitals_sort by (rule sortByScore_then)
qed

theorem C5_sorted_by_score_then_distance_witness:
  "candidates [annexHospital, metropolitanGeneral] = [annexHospital, metropolitanGeneral]
   \<and> hospitalDistance exampleMath (-73.9857) 40.7484 annexHospital = Finite 0
   \<and> hospitalDistance exampleMath (-73.9857) 40.7484 metropolitanGeneral = Finite 0
   \<and> sorted_wrt (\<lambda>g h. js_ge (hospitalDistance exampleMath (-73.9857) 40.7484 h)
                             (hospitalDistance exampleMath (-73.9857) 40.7484 g))
        [annexHospital, metropolitanGeneral]
   \<and> sorted_wrt (\<lambda>a b. js_positive (js_sub (sh_score a) (sh_score b))
                        \<or> (sh_score a = sh_score b \<and> js_ge (sh_distance b) (sh_distance a)))
        (findNearbyHospitals exampleMath [annexHospital, metropolitanGeneral] (-73.9857) 40.7484
           Cardiac ''critical'' 50000)
   \<and> map sh_hospital
        (findNearbyHospitals exampleMath [annexHospital, metropolitanGeneral] (-73.9857) 40.7484
           Cardiac ''critical'' 50000) = [annexHospital, metropolitanGeneral]"
proof -
  have d: "\<forall>h\<in>set (candidates [annexHospital, metropolitanGeneral]).
         \<exists>r. hospitalDistance exampleMath (-73.9857) 40.7484 h = Finite r \<and> 0 \<le> r"
    unfolding sample_candidates using metropolitan_distance by simp
  have s: "sorted_wrt (\<lambda>g h. js_ge (hospitalDistance exampleMath (-73.9857) 40.7484 h)
                             (hospitalDistance exampleMath (-73.9857) 40.7484 g))
        [annexHospital, metropolitanGeneral]"
    using metropolitan_distance by simp
  show ?thesis
    using C5_sorted_by_score_then_distance [OF d, of Cardiac "''critical''" 50000] s
      sample_candidates metropolitan_distance
    unfolding sample_search by simp
qed

subsection \<open>C6: the capacity score\<close>

text \<open>
  C6 as stated: the capacity score is 30 times the share of available beds,
  plus 25 and 20 for an available emergency room and ICU bed, plus 5 for each
  of five equipment items with the equipment capped at 20, capped at 100 in
  total. It is not: the seeded hospital has all five items and scores 72.7,
  where the stated formula gives 67.7; and a hospital with no beds at all has
  no score, the division of 0 by 0 giving \<open>NaN\<close>.
\<close>

theorem C6_capacity_score_counterexample:
  "equipmentCount metropolitanGeneral = 5
   \<and> calculateCapacityScore metropolitanGeneral = Finite (727 / 10)
   \<and> spec_capacityScore metropolitanGeneral = 677 / 10
   \<and> calculateCapacityScore closedWard = NaN"
  by (simp add: calculateCapacityScore_def spec_capacityScore_def equipmentCount_def Let_def
        addPoints_def js_div_def metropolitanGeneral_def closedWard_def)

text \<open>
  C6 amended. For every hospital with \<open>totalBeds \<noteq> 0\<close> the capacity score is
  \<open>30 \<times> availableBeds / totalBeds\<close>, plus 25 if an emergency room is available,
  plus 20 if an ICU bed is available, plus 5 for each of the five equipment
  items with no cap on the equipment, which contributes up to 25, and the total
  capped at 100. With \<open>totalBeds = 0\<close> the score is 100 when beds are available,
  \<open>NaN\<close> when none is, and \<open>-Infinity\<close> for a negative count.
\<close>

theorem C6_capacity_score:
  "calculateCapacityScore h =
     (if totalBeds (capacity h) \<noteq> 0
      then Finite (min (30 * (availableBeds (capacity h) / totalBeds (capacity h))
                        + (if 0 < availableEmergencyRooms (capacity h) then 25 else 0)
                        + (if 0 < availableIcuBeds (capacity h) then 20 else 0)
                        + 5 * real (equipmentCount h)) 100)
      else if 0 < availableBeds (capacity h) then Finite 100
      else if availableBeds (capacity h) < 0 then NegInfinity
      else NaN)"
proof -
  define u where "u = 30 * (availableBeds (capacity h) / totalBeds (capacity h))"
  have s1: "js_add (Finite 0)
              (js_scale (js_div (availableBeds (capacity h)) (totalBeds (capacity h))) 30) =
              (if totalBeds (capacity h) \<noteq> 0 then Finite u
               else if 0 < availableBeds (capacity h) then PosInfinity
               else if availableBeds (capacity h) < 0 then NegInfinity
               else NaN)"
    by (simp add: js_div_def u_def)
  consider (fin) "totalBeds (capacity h) \<noteq> 0"
    | (pos) "totalBeds (capacity h) = 0" "0 < availableBeds (capacity h)"
    | (neg) "totalBeds (capacity h) = 0" "availableBeds (capacity h) < 0"
    | (nan) "totalBeds (capacity h) = 0" "availableBeds (capacity h) = 0"
    by linarith
  then show ?thesis
  proof cases
    case fin
    have s: "js_add (Finite 0)
              (js_scale (js_div (availableBeds (capacity h)) (totalBeds (capacity h))) 30) = Finite u"
      using fin by (simp add: s1)
    have "calculateCapacityScore h =
        Finite (min (u + (if 0 < availableEmergencyRooms (capacity h) then 25 else 0)
                       + (if 0 < availableIcuBeds (capacity h) then 20 else 0)
                       + (if ctScan (equipment h) then 5 else 0)
                       + (if mriMachine (equipment h) then 5 else 0)
                       + (if 0 < ventilators (equipment h) then 5 else 0)
                       + (if 0 < defibrillators (equipment h) then 5 else 0)
                       + (if bloodBank (equipment h) then 5 else 0)) 100)"
      unfolding calculateCapacityScore_def Let_def s
      by (simp only: addPoints_Finite Math_min.simps)
    then show ?thesis
      using fin by (simp only: equipmentCount_points u_def if_True add.assoc simp_thms)
  next
    case pos
    have s: "js_add (Finite 0)
              (js_scale (js_div (availableBeds (capacity h)) (totalBeds (capacity h))) 30) = PosInfinity"
      using pos by (simp add: js_div_def)
    show ?thesis
      unfolding calculateCapacityScore_def Let_def s
      using pos by (simp add: addPoints_other)
  next
    case neg
    have s: "js_add (Finite 0)
              (js_scale (js_div (availableBeds (capacity h)) (totalBeds (capacity h))) 30) = NegInfinity"
      using neg by (simp add: js_div_def)
    show ?thesis
      unfolding calculateCapacityScore_def Let_def s
      using neg by (simp add: addPoints_other)
  next
    case nan
    have s: "js_add (Finite 0)
              (js_scale (js_div (availableBeds (capacity h)) (totalBeds (capacity h))) 30) = NaN"
      using nan by (simp add: js_div_def)
    show ?thesis
      unfolding calculateCapacityScore_def Let_def s
      using nan by (simp add: addPoints_other)
  qed
qed

end
